theory Spec2Isabelle
  imports Complex_Main "HOL-Library.Sublist"
begin

section \<open>JavaScript strings and values\<close>

text \<open>
  A JavaScript string is a sequence of UTF-16 code units. The messages of the program are
  Japanese, so a string is a list of code units given as numbers; Basic Latin text is
  written through \<open>ascii\<close>.
\<close>

type_synonym jsstring = "nat list"

definition ascii :: "string \<Rightarrow> jsstring" where
  "ascii s = map of_char s"

text \<open>\<open>String.prototype.includes\<close>: the argument occurs as a contiguous run.\<close>

fun js_includes :: "jsstring \<Rightarrow> jsstring \<Rightarrow> bool" where
  "js_includes [] sub = (sub = [])"
| "js_includes (c # cs) sub = (prefix sub (c # cs) \<or> js_includes cs sub)"

text \<open>
  \<open>String.prototype.toLowerCase\<close> on the Basic Latin letters, together with the two
  code units outside Basic Latin whose lower case holds a Basic Latin letter (U+0130 and the
  Kelvin sign U+212A). Every other code unit maps to code units outside Basic Latin and is
  left as it is: the program only searches the result for Basic Latin keywords.
\<close>

definition lower_unit :: "nat \<Rightarrow> jsstring" where
  "lower_unit c =
     (if 65 \<le> c \<and> c \<le> 90 then [c + 32]
      else if c = 304 then [105, 775]
      else if c = 8490 then [107]
      else [c])"

definition toLowerCase :: "jsstring \<Rightarrow> jsstring" where
  "toLowerCase s = concat (map lower_unit s)"

text \<open>White space and line terminators of ECMAScript: what \<open>trim\<close> strips.\<close>

definition is_ws :: "nat \<Rightarrow> bool" where
  "is_ws c \<longleftrightarrow>
     c \<in> {9, 10, 11, 12, 13, 32, 160, 5760, 8232, 8233, 8239, 8287, 12288, 65279}
     \<or> (8192 \<le> c \<and> c \<le> 8202)"

definition trim :: "jsstring \<Rightarrow> jsstring" where
  "trim s = rev (dropWhile is_ws (rev (dropWhile is_ws s)))"

text \<open>Index of the first occurrence of a pattern.\<close>

fun find_sub :: "jsstring \<Rightarrow> jsstring \<Rightarrow> nat option" where
  "find_sub pat [] = (if pat = [] then Some 0 else None)"
| "find_sub pat (c # cs) =
     (if prefix pat (c # cs) then Some 0 else map_option Suc (find_sub pat cs))"

text \<open>
  \<open>s.replace(/pat/g, '')\<close> for a literal pattern: the occurrences are removed from left
  to right, without overlap.
\<close>

function remove_all :: "jsstring \<Rightarrow> jsstring \<Rightarrow> jsstring" where
  "remove_all pat [] = []"
| "remove_all pat (c # cs) =
     (if pat \<noteq> [] \<and> prefix pat (c # cs)
      then remove_all pat (drop (length pat) (c # cs))
      else c # remove_all pat cs)"
  by pat_completeness auto
termination
  by (relation "measure (\<lambda>(pat, s). length s)") (auto simp: neq_Nil_conv)

text \<open>Decimal rendering of numbers, as \<open>String(n)\<close> and template literals give it.\<close>

function show_nat :: "nat \<Rightarrow> jsstring" where
  "show_nat n = (if n < 10 then [48 + n] else show_nat (n div 10) @ [48 + n mod 10])"
  by pat_completeness auto
termination
  by (relation "measure id") auto

declare show_nat.simps [simp del]

definition show_int :: "int \<Rightarrow> jsstring" where
  "show_int i = (if i < 0 then 45 # show_nat (nat (- i)) else show_nat (nat i))"

text \<open>The primitive values an error's \<open>status\<close> and \<open>code\<close> can hold (numbers: integers).\<close>

datatype jsval = JUndefined | JNull | JBool bool | JNum int | JStr jsstring

fun truthy :: "jsval \<Rightarrow> bool" where
  "truthy JUndefined = False"
| "truthy JNull = False"
| "truthy (JBool b) = b"
| "truthy (JNum n) = (n \<noteq> 0)"
| "truthy (JStr s) = (s \<noteq> [])"

definition js_or :: "jsval \<Rightarrow> jsval \<Rightarrow> jsval" where
  "js_or a b = (if truthy a then a else b)"

fun String :: "jsval \<Rightarrow> jsstring" where
  "String JUndefined = ascii ''undefined''"
| "String JNull = ascii ''null''"
| "String (JBool b) = (if b then ascii ''true'' else ascii ''false'')"
| "String (JNum n) = show_int n"
| "String (JStr s) = s"

text \<open>A JavaScript exception as the callers see it: an \<open>Error\<close> with its message.\<close>

datatype js_exn = Error jsstring | TypeError jsstring

fun exn_message :: "js_exn \<Rightarrow> jsstring" where
  "exn_message (Error m) = m"
| "exn_message (TypeError m) = m"

section \<open>The script generator (geminiService)\<close>

text \<open>
  What the \<open>catch\<close> clause can receive: a thrown string, or an object with the properties
  the handler reads. \<open>err_json\<close> is what \<open>JSON.stringify\<close> gives for the object; an absent
  or empty \<open>message\<close> is the empty string (both are falsy).
\<close>

record js_response =
  resp_status :: jsval
  resp_code :: jsval

record js_error =
  err_status :: jsval
  err_code :: jsval
  err_message :: jsstring
  err_response :: "js_response option"
  err_json :: jsstring

datatype thrown = ThrownString jsstring | ThrownError js_error

text \<open>\<open>new Error(m)\<close>: no status, code or response; it serialises to \<open>{}\<close>.\<close>

definition new_Error :: "jsstring \<Rightarrow> js_error" where
  "new_Error m =
     \<lparr>err_status = JUndefined, err_code = JUndefined, err_message = m,
      err_response = None, err_json = ascii ''{}''\<rparr>"

text \<open>The outcome of one call of the generation service, and what a run does.\<close>

datatype call_outcome = Responds "jsstring option" | Fails thrown

datatype event = Call nat | OnRetry nat jsstring | Delay real

definition maxRetries :: nat where
  "maxRetries = 8"

text \<open>"The API key is not set. Check the environment variables of Vercel."\<close>
definition msg_no_api_key :: jsstring where
  "msg_no_api_key =
     [65, 80, 73, 12461, 12540, 12364, 35373, 23450, 12373, 12428, 12390, 12356, 12414,
      12379, 12435, 12290, 86, 101, 114, 99, 101, 108, 12398, 29872, 22659, 22793, 25968,
      12434, 30906, 35469, 12375, 12390, 12367, 12384, 12373, 12356, 12290]"

text \<open>"The response from the AI is empty."\<close>
definition msg_empty_response :: jsstring where
  "msg_empty_response =
     [65, 73, 12363, 12425, 12398, 24540, 31572, 12364, 31354, 12391, 12377, 12290]"

text \<open>"The AI server is busy. Retrying (" ... "/" ... ")..."\<close>
definition retry_notice :: "nat \<Rightarrow> jsstring" where
  "retry_notice attempt =
     [65, 73, 12469, 12540, 12496, 12540, 12364, 28151, 38609, 12375, 12390, 12356, 12414,
      12377, 12290, 20877, 35430, 34892, 20013, 32, 40]
     @ show_nat (attempt + 1) @ ascii ''/'' @ show_nat maxRetries @ ascii '')...''"

text \<open>"An unknown error occurred."\<close>
definition msg_unknown :: jsstring where
  "msg_unknown =
     [19981, 26126, 12394, 12456, 12521, 12540, 12364, 30330, 29983, 12375, 12414, 12375,
      12383, 12290]"

text \<open>
  "The AI server is very crowded at the moment. This comes from the limits of Google's free
  tier. Wait one or two minutes, then press the retry button below."
\<close>
definition msg_overloaded :: jsstring where
  "msg_overloaded =
     [65, 73, 12469, 12540, 12496, 12540, 12364, 29694, 22312, 38750, 24120, 12395, 28151,
      12415, 21512, 12387, 12390, 12356, 12414, 12377, 12290, 71, 111, 111, 103, 108, 101,
      20596, 12398, 28961, 26009, 26528, 21046, 38480, 12395, 12424, 12426, 30330, 29983,
      12375, 12390, 12356, 12414, 12377, 12290, 49, 12316, 50, 20998, 24453, 12387, 12390,
      12363, 12425, 12289, 19979, 12398, 12300, 20877, 35430, 34892, 12301, 12508, 12479,
      12531, 12434, 25276, 12375, 12390, 12367, 12384, 12373, 12356, 12290]"

text \<open>"The usage limit (Quota) of the API was reached. Try again after a while."\<close>
definition msg_quota :: jsstring where
  "msg_quota =
     [65, 80, 73, 12398, 21033, 29992, 21046, 38480, 40, 81, 117, 111, 116, 97, 41, 12395,
      36948, 12375, 12414, 12375, 12383, 12290, 12375, 12400, 12425, 12367, 26178, 38291,
      12434, 32622, 12356, 12390, 12363, 12425, 20877, 24230, 12362, 35430, 12375, 12367,
      12384, 12373, 12356, 12290]"

text \<open>"Error: "\<close>
definition err_prefix :: jsstring where
  "err_prefix = [12456, 12521, 12540, 58, 32]"

subsection \<open>The prompt\<close>

fun join_columns :: "jsstring list \<Rightarrow> jsstring" where
  "join_columns [] = []"
| "join_columns [c] = c"
| "join_columns (c # d # ds) = c @ ascii '', '' @ join_columns (d # ds)"

definition prompt_head :: jsstring where
  "prompt_head =
     [10, 32, 32, 32, 32, 69, 120, 99, 101, 108, 12501, 12449, 12452, 12523, 12398, 33258,
      21205, 32232, 38598, 29992, 12473, 12463, 12522, 12503, 12488, 12434, 20316, 25104,
      12375, 12390, 12367, 12384, 12373, 12356, 12290, 10, 32, 32, 32, 32, 10, 32, 32, 32,
      32, 42, 42, 25351, 31034, 20869, 23481, 32, 40, 65, 49, 12475, 12523, 41, 58, 42, 42,
      32, 34]"

definition prompt_columns :: jsstring where
  "prompt_columns =
     [34, 10, 32, 32, 32, 32, 42, 42, 29694, 22312, 12398, 21015, 27083, 25104, 58, 42, 42,
      32]"

definition prompt_tail :: jsstring where
  "prompt_tail =
     [10, 32, 32, 32, 32, 10, 32, 32, 32, 32, 42, 42, 35201, 20214, 58, 42, 42, 10, 32, 32,
      32, 32, 45, 32, 39, 105, 110, 112, 117, 116, 46, 120, 108, 115, 120, 39, 32, 12434,
      35501, 12415, 36796, 12415, 12289, 25351, 31034, 36890, 12426, 12395, 21152, 24037,
      12375, 12390, 32, 39, 111, 117, 116, 112, 117, 116, 46, 120, 108, 115, 120, 39, 32,
      12395, 20445, 23384, 12377, 12427, 12290, 10, 32, 32, 32, 32, 45, 32, 39, 111, 112,
      101, 110, 112, 121, 120, 108, 46, 99, 101, 108, 108, 46, 116, 101, 120, 116, 39, 32,
      12363, 12425, 12398, 32, 39, 67, 101, 108, 108, 82, 105, 99, 104, 84, 101, 120, 116,
      39, 32, 12452, 12531, 12509, 12540, 12488, 12399, 36991, 12369, 12427, 12371, 12392,
      12290, 10, 32, 32, 32, 32, 45, 32, 36914, 25431, 12434, 26085, 26412, 35486, 12391,
      32, 112, 114, 105, 110, 116, 32, 20986, 21147, 12377, 12427, 12371, 12392, 12290, 10,
      32, 32, 32, 32, 10, 32, 32, 32, 32, 80, 121, 116, 104, 111, 110, 12467, 12540, 12489,
      12398, 12415, 12434, 32, 96, 96, 96, 112, 121, 116, 104, 111, 110, 32, 46, 46, 46,
      32, 96, 96, 96, 32, 24418, 24335, 12391, 20986, 21147, 12375, 12390, 12367, 12384,
      12373, 12356, 12290, 10, 32, 32]"

definition prompt :: "jsstring \<Rightarrow> jsstring list \<Rightarrow> jsstring" where
  "prompt a1Instruction columns =
     prompt_head @ a1Instruction @ prompt_columns @ join_columns columns @ prompt_tail"

subsection \<open>Parsing the response\<close>

definition fence :: jsstring where
  "fence = [96, 96, 96]"

definition fence_python :: jsstring where
  "fence_python = fence @ ascii ''python''"

text \<open>
  Capture group 1 of the first match of the regular expression: a fence tagged
  \<open>python\<close>, the shortest text after it, a closing fence. The search tries each start
  position from the left.
\<close>

fun codeMatch :: "jsstring \<Rightarrow> jsstring option" where
  "codeMatch [] = None"
| "codeMatch (c # cs) =
     (if prefix fence_python (c # cs) then
        (case find_sub fence (drop (length fence_python) (c # cs)) of
           Some j \<Rightarrow> Some (take j (drop (length fence_python) (c # cs)))
         | None \<Rightarrow> codeMatch cs)
      else codeMatch cs)"

definition strip_fences :: "jsstring \<Rightarrow> jsstring" where
  "strip_fences text = trim (remove_all fence (remove_all fence_python text))"

definition extract_script :: "jsstring \<Rightarrow> jsstring" where
  "extract_script text =
     (case codeMatch text of
        Some g \<Rightarrow> if g \<noteq> [] then trim g else strip_fences text
      | None \<Rightarrow> strip_fences text)"

text \<open>
  The first fenced block of a response, in the words of the specification: the text is
  \<open>pre\<close>, the tagged fence, \<open>body\<close>, a closing fence and \<open>post\<close>, where no tagged fence
  starts before the end of \<open>pre\<close> and no fence starts inside \<open>body\<close>.
\<close>

definition first_block :: "jsstring \<Rightarrow> jsstring \<Rightarrow> jsstring \<Rightarrow> jsstring \<Rightarrow> bool" where
  "first_block resp pre body post \<longleftrightarrow>
     resp = pre @ fence_python @ body @ fence @ post
     \<and> (\<forall>i<length pre. \<not> prefix fence_python (drop i resp))
     \<and> (\<forall>j<length body. \<not> prefix fence (drop j (body @ fence @ post)))"

text \<open>The body of the \<open>try\<close> after the service answered: an empty answer is thrown.\<close>

definition parse_response :: "jsstring option \<Rightarrow> thrown + jsstring" where
  "parse_response text =
     (case text of
        None \<Rightarrow> Inl (ThrownError (new_Error msg_empty_response))
      | Some t \<Rightarrow>
          if t = [] then Inl (ThrownError (new_Error msg_empty_response))
          else Inr (extract_script t))"

subsection \<open>Classifying a caught error\<close>

fun error_status :: "thrown \<Rightarrow> jsval" where
  "error_status (ThrownString s) = JUndefined"
| "error_status (ThrownError e) =
     js_or (err_status e)
       (case err_response e of None \<Rightarrow> JUndefined | Some r \<Rightarrow> resp_status r)"

fun error_code :: "thrown \<Rightarrow> jsval" where
  "error_code (ThrownString s) = JUndefined"
| "error_code (ThrownError e) =
     js_or (err_code e)
       (case err_response e of None \<Rightarrow> JUndefined | Some r \<Rightarrow> resp_code r)"

fun errorMsg :: "thrown \<Rightarrow> jsstring" where
  "errorMsg (ThrownString s) = s"
| "errorMsg (ThrownError e) = (if err_message e \<noteq> [] then err_message e else err_json e)"

text \<open>What the \<open>try\<close> block of one attempt yields: the script, or the value thrown.\<close>

definition try_body :: "call_outcome \<Rightarrow> thrown + jsstring" where
  "try_body outcome = (case outcome of Responds text \<Rightarrow> parse_response text | Fails e \<Rightarrow> Inl e)"

definition isRetryable :: "thrown \<Rightarrow> bool" where
  "isRetryable error \<longleftrightarrow>
     error_status error = JStr (ascii ''UNAVAILABLE'') \<or>
     error_status error = JStr (ascii ''RESOURCE_EXHAUSTED'') \<or>
     String (error_code error) = ascii ''503'' \<or>
     String (error_code error) = ascii ''429'' \<or>
     js_includes (errorMsg error) (ascii ''503'') \<or>
     js_includes (errorMsg error) (ascii ''429'') \<or>
     js_includes (toLowerCase (errorMsg error)) (ascii ''overloaded'') \<or>
     js_includes (toLowerCase (errorMsg error)) (ascii ''unavailable'') \<or>
     js_includes (toLowerCase (errorMsg error)) (ascii ''resource_exhausted'')"

text \<open>
  JavaScript numbers are IEEE doubles. A double is represented by the real number it
  denotes, and the arithmetic of the runtime on doubles is an input: \<open>Math_random k\<close> is the
  value \<open>Math.random()\<close> returns at attempt \<open>k\<close>, \<open>Math_pow\<close> is \<open>Math.pow\<close>, and
  \<open>fmul\<close> and \<open>fadd\<close> are the rounded product and sum. Nothing is assumed about them.
\<close>

record double_ops =
  Math_random :: "nat \<Rightarrow> real"
  Math_pow :: "real \<Rightarrow> real \<Rightarrow> real"
  fmul :: "real \<Rightarrow> real \<Rightarrow> real"
  fadd :: "real \<Rightarrow> real \<Rightarrow> real"

text \<open>The double that the literal \<open>1.8\<close> denotes.\<close>

definition double_1_8 :: real where
  "double_1_8 = 8106479329266893 / 4503599627370496"

text \<open>\<open>Math.pow(1.8, attempt) * 1500 + Math.random() * 1000\<close>.\<close>

definition backoffMs :: "double_ops \<Rightarrow> nat \<Rightarrow> real" where
  "backoffMs fp attempt =
     fadd fp (fmul fp (Math_pow fp double_1_8 (real attempt)) 1500)
             (fmul fp (Math_random fp attempt) 1000)"

subsection \<open>The retry loop\<close>

text \<open>
  The service is an input: \<open>svc p k\<close> is the outcome of the call made at attempt \<open>k\<close> with
  prompt \<open>p\<close>, and \<open>fp\<close> is the arithmetic on doubles. The loop returns
  the script, or \<open>lastError\<close> when it is left without one, and the events in their order.
  The retry notice is recorded whether or not the caller passed a callback.
\<close>

function attempt_loop ::
  "(nat \<Rightarrow> call_outcome) \<Rightarrow> double_ops \<Rightarrow> nat \<Rightarrow> thrown option
     \<Rightarrow> (thrown option + jsstring) \<times> event list" where
  "attempt_loop call fp attempt lastError =
     (if attempt \<le> maxRetries then
        (case try_body (call attempt) of
           Inr script \<Rightarrow> (Inr script, [Call attempt])
         | Inl error \<Rightarrow>
             if isRetryable error \<and> attempt < maxRetries then
               (case attempt_loop call fp (attempt + 1) (Some error) of
                  (r, evs) \<Rightarrow>
                    (r, Call attempt # OnRetry (attempt + 1) (retry_notice attempt)
                          # Delay (backoffMs fp attempt) # evs))
             else (Inl (Some error), [Call attempt]))
      else (Inl lastError, []))"
  by pat_completeness auto
termination
  by (relation "measure (\<lambda>(call, fp, attempt, lastError). Suc maxRetries - attempt)") auto

declare attempt_loop.simps [simp del]

text \<open>The attempts at which the service was called, and the events of the retries \<open>a..<b\<close>.\<close>

fun calls :: "event list \<Rightarrow> nat list" where
  "calls [] = []"
| "calls (Call k # evs) = k # calls evs"
| "calls (ev # evs) = calls evs"

definition retry_events :: "double_ops \<Rightarrow> nat \<Rightarrow> nat \<Rightarrow> event list" where
  "retry_events fp a b =
     concat (map (\<lambda>k. [Call k, OnRetry (k + 1) (retry_notice k), Delay (backoffMs fp k)])
               [a..<b])"

text \<open>
  The classification in the words of the specification: a status of \<open>UNAVAILABLE\<close> or
  \<open>RESOURCE_EXHAUSTED\<close>, a code of 503 or 429 (as a number or as text), a message
  containing \<open>503\<close> or \<open>429\<close>, or a message containing one of three keywords in any
  letter case.
\<close>

definition spec_retryable :: "thrown \<Rightarrow> bool" where
  "spec_retryable error \<longleftrightarrow>
     error_status error \<in> {JStr (ascii ''UNAVAILABLE''), JStr (ascii ''RESOURCE_EXHAUSTED'')}
     \<or> error_code error \<in> {JNum 503, JStr (ascii ''503''), JNum 429, JStr (ascii ''429'')}
     \<or> (\<exists>k \<in> {ascii ''503'', ascii ''429''}. js_includes (errorMsg error) k)
     \<or> (\<exists>k \<in> {ascii ''overloaded'', ascii ''unavailable'', ascii ''resource_exhausted''}.
           js_includes (toLowerCase (errorMsg error)) k)"

subsection \<open>The final error\<close>

definition is_line_terminator :: "nat \<Rightarrow> bool" where
  "is_line_terminator c \<longleftrightarrow> c \<in> {10, 13, 8232, 8233}"

definition error_open :: jsstring where
  "error_open = ascii ''{\"error\":''"

text \<open>
  The first match of \<open>/\{"error":.*\}/\<close>: from an opening \<open>{"error":\<close> to the last
  closing brace before the end of that line.
\<close>

fun match_error_payload :: "jsstring \<Rightarrow> jsstring option" where
  "match_error_payload [] = None"
| "match_error_payload (c # cs) =
     (if prefix error_open (c # cs) then
        (let line = takeWhile (\<lambda>x. \<not> is_line_terminator x) (drop (length error_open) (c # cs))
         in if 125 \<in> set line
            then Some (error_open @ rev (dropWhile (\<lambda>x. x \<noteq> 125) (rev line)))
            else match_error_payload cs)
      else match_error_payload cs)"

text \<open>
  \<open>JSON.parse\<close> is an input: \<open>json_message p\<close> is \<open>Some v\<close> when \<open>p\<close> parses and \<open>v\<close> is
  the value of \<open>parsed.error?.message\<close> (\<open>JUndefined\<close> when it is absent), and \<open>None\<close> when
  parsing or the access throws. The message is replaced by that value when it is truthy,
  whatever its type; the result is therefore a value, a string unless the payload held a
  message of another type.
\<close>

definition unwrap_error_payload :: "(jsstring \<Rightarrow> jsval option) \<Rightarrow> jsstring \<Rightarrow> jsval" where
  "unwrap_error_payload json_message m =
     (if js_includes m (ascii ''{\"error\"'') then
        (case match_error_payload m of
           Some p \<Rightarrow> (case json_message p of Some v \<Rightarrow> js_or v (JStr m) | None \<Rightarrow> JStr m)
         | None \<Rightarrow> JStr m)
      else JStr m)"

fun lastError_message :: "thrown \<Rightarrow> jsstring" where
  "lastError_message (ThrownString s) = msg_unknown"
| "lastError_message (ThrownError e) = (if err_message e \<noteq> [] then err_message e else msg_unknown)"

definition finalMessage :: "(jsstring \<Rightarrow> jsval option) \<Rightarrow> thrown \<Rightarrow> jsval" where
  "finalMessage json_message lastError =
     unwrap_error_payload json_message (lastError_message lastError)"

definition indicates_overload :: "jsstring \<Rightarrow> bool" where
  "indicates_overload m \<longleftrightarrow>
     js_includes (toLowerCase m) (ascii ''overloaded'') \<or> js_includes m (ascii ''503'')
     \<or> js_includes m (ascii ''UNAVAILABLE'')"

definition indicates_quota :: "jsstring \<Rightarrow> bool" where
  "indicates_quota m \<longleftrightarrow>
     js_includes m (ascii ''429'') \<or> js_includes m (ascii ''RESOURCE_EXHAUSTED'')"

text \<open>
  The code after the loop. \<open>lastError\<close> is \<open>None\<close> only if the loop ended without
  catching anything; reading \<open>message\<close> of \<open>undefined\<close> is then a \<open>TypeError\<close>. When the
  unwrapped message is not a string, \<open>finalMessage.toLowerCase()\<close> is a \<open>TypeError\<close> as
  well.
\<close>

definition classify_message :: "jsstring \<Rightarrow> js_exn" where
  "classify_message m =
     (if indicates_overload m then Error msg_overloaded
      else if indicates_quota m then Error msg_quota
      else Error (err_prefix @ m))"

definition final_error :: "(jsstring \<Rightarrow> jsval option) \<Rightarrow> thrown option \<Rightarrow> js_exn" where
  "final_error json_message lastError =
     (case lastError of
        None \<Rightarrow> TypeError (ascii ''lastError is undefined'')
      | Some e \<Rightarrow>
          (case finalMessage json_message e of
             JStr m \<Rightarrow> classify_message m
           | JUndefined \<Rightarrow> TypeError (ascii ''finalMessage.toLowerCase is not a function'')
           | JNull \<Rightarrow> TypeError (ascii ''finalMessage.toLowerCase is not a function'')
           | JBool b \<Rightarrow> TypeError (ascii ''finalMessage.toLowerCase is not a function'')
           | JNum n \<Rightarrow> TypeError (ascii ''finalMessage.toLowerCase is not a function'')))"

text \<open>
  \<open>generateExcelEditCode\<close>. \<open>apiKey\<close> is \<open>process.env.API_KEY\<close> (\<open>None\<close> when unset).
\<close>

definition generateExcelEditCode ::
  "jsstring option \<Rightarrow> (jsstring \<Rightarrow> nat \<Rightarrow> call_outcome) \<Rightarrow> double_ops
     \<Rightarrow> (jsstring \<Rightarrow> jsval option) \<Rightarrow> jsstring \<Rightarrow> jsstring list
     \<Rightarrow> (js_exn + jsstring) \<times> event list" where
  "generateExcelEditCode apiKey svc fp json_message a1Instruction columns =
     (if apiKey = None \<or> apiKey = Some [] then (Inl (Error msg_no_api_key), [])
      else
        (case attempt_loop (svc (prompt a1Instruction columns)) fp 0 None of
           (Inr script, evs) \<Rightarrow> (Inr script, evs)
         | (Inl lastError, evs) \<Rightarrow> (Inl (final_error json_message lastError), evs)))"


section \<open>The sandboxed executor (pyodideService)\<close>

text \<open>
  The virtual file system of the interpreter holds files by path. The interpreter is an
  input: \<open>py script fs\<close> gives the batches written to standard output, the message of the
  exception the script raised (\<open>None\<close> when it ended normally) and the file system it left.
\<close>

type_synonym bytes = "nat list"

type_synonym fs = "string \<rightharpoonup> bytes"

type_synonym interpreter = "jsstring \<Rightarrow> fs \<Rightarrow> jsstring list \<times> jsstring option \<times> fs"

datatype fs_error = ENOENT

definition FS_writeFile :: "fs \<Rightarrow> string \<Rightarrow> bytes \<Rightarrow> fs" where
  "FS_writeFile f path data = f(path \<mapsto> data)"

definition FS_unlink :: "fs \<Rightarrow> string \<Rightarrow> fs_error + fs" where
  "FS_unlink f path = (if path \<in> dom f then Inr (f(path := None)) else Inl ENOENT)"

record File =
  name :: jsstring
  content :: bytes

record Blob =
  blob_data :: bytes
  blob_type :: string

text \<open>"The Python environment is not initialised."\<close>
definition msg_not_init :: jsstring where
  "msg_not_init =
     [80, 121, 116, 104, 111, 110, 29872, 22659, 12364, 21021, 26399, 21270, 12373, 12428,
      12390, 12356, 12414, 12379, 12435, 12290]"

text \<open>"Preparing the file in the virtual environment..."\<close>
definition log_prepare :: jsstring where
  "log_prepare =
     [12501, 12449, 12452, 12523, 12434, 20206, 24819, 29872, 22659, 12395, 28310, 20633,
      20013, 46, 46, 46]"

text \<open>"Running the Python script..."\<close>
definition log_running :: jsstring where
  "log_running =
     [80, 121, 116, 104, 111, 110, 12473, 12463, 12522, 12503, 12488, 12434, 23455, 34892,
      12375, 12390, 12356, 12414, 12377, 46, 46, 46]"

text \<open>"Execution error: "\<close>
definition exec_prefix :: jsstring where
  "exec_prefix = [23455, 34892, 12456, 12521, 12540, 58, 32]"

text \<open>"Checking the output file..."\<close>
definition log_checking :: jsstring where
  "log_checking =
     [20986, 21147, 12501, 12449, 12452, 12523, 12434, 30906, 35469, 12375, 12390, 12356,
      12414, 12377, 46, 46, 46]"

text \<open>
  "The script ended normally, but 'output.xlsx' was not generated. The Python code may not
  have saved the file (written output.xlsx). Review the instruction and try again."
\<close>
definition msg_no_output :: jsstring where
  "msg_no_output =
     [12473, 12463, 12522, 12503, 12488, 12399, 27491, 24120, 12395, 32066, 20102, 12375,
      12414, 12375, 12383, 12364, 12289, 39, 111, 117, 116, 112, 117, 116, 46, 120, 108,
      115, 120, 39, 32, 12364, 29983, 25104, 12373, 12428, 12414, 12379, 12435, 12391,
      12375, 12383, 12290, 80, 121, 116, 104, 111, 110, 12467, 12540, 12489, 20869, 12391,
      12501, 12449, 12452, 12523, 12398, 20445, 23384, 20966, 29702, 65288, 111, 117, 116,
      112, 117, 116, 46, 120, 108, 115, 120, 12408, 12398, 26360, 12365, 20986, 12375,
      65289, 12364, 34892, 12431, 12428, 12394, 12363, 12387, 12383, 21487, 33021, 24615,
      12364, 12354, 12426, 12414, 12377, 12290, 25351, 31034, 20869, 23481, 12434, 35211,
      30452, 12375, 12390, 12418, 12358, 19968, 24230, 12362, 35430, 12375, 12367, 12384,
      12373, 12356, 12290]"

definition xlsx_mime :: string where
  "xlsx_mime = ''application/vnd.openxmlformats-officedocument.spreadsheetml.sheet''"

text \<open>
  \<open>extractA1AndColumns\<close>. Reading the workbook (the embedded Python script and
  \<open>JSON.parse\<close> of its result) is an input: \<open>read_xlsx\<close> gives the instruction text and
  the column names, or the exception that escapes.
\<close>

definition extractA1AndColumns ::
  "(bytes \<Rightarrow> js_exn + jsstring \<times> jsstring list) \<Rightarrow> fs option \<Rightarrow> File
     \<Rightarrow> (js_exn + jsstring \<times> jsstring list) \<times> fs option" where
  "extractA1AndColumns read_xlsx pyodideInstance file =
     (case pyodideInstance of
        None \<Rightarrow> (Inl (Error msg_not_init), None)
      | Some f \<Rightarrow>
          (read_xlsx (content file), Some (FS_writeFile f ''input_temp.xlsx'' (content file))))"

text \<open>\<open>try { pyodide.FS.unlink("output.xlsx"); } catch(e) {}\<close>: the error is discarded.\<close>

definition cleanup_output :: "fs \<Rightarrow> fs" where
  "cleanup_output f = (case FS_unlink f ''output.xlsx'' of Inr g \<Rightarrow> g | Inl e \<Rightarrow> f)"

text \<open>
  \<open>runPythonTransformation\<close>: the result, the messages passed to \<open>logCallback\<close> in their
  order, and the file system afterwards. \<open>analyzePath(...).exists\<close> followed by
  \<open>readFile\<close> is the lookup of the path.
\<close>

definition runPythonTransformation ::
  "interpreter \<Rightarrow> fs option \<Rightarrow> jsstring \<Rightarrow> File
     \<Rightarrow> (js_exn + Blob) \<times> jsstring list \<times> fs option" where
  "runPythonTransformation py pyodideInstance script inputFile =
     (case pyodideInstance of
        None \<Rightarrow> (Inl (Error msg_not_init), [], None)
      | Some f \<Rightarrow>
          (let f1 = FS_writeFile f ''input.xlsx'' (content inputFile);
               f2 = cleanup_output f1
           in case py script f2 of
                (out, raised, f3) \<Rightarrow>
                  (let logs = [log_prepare, log_running] @ map (\<lambda>msg. ascii ''[Python] '' @ msg) out
                   in case raised of
                        Some m \<Rightarrow> (Inl (Error (exec_prefix @ m)), logs, Some f3)
                      | None \<Rightarrow>
                          (case f3 ''output.xlsx'' of
                             Some fileData \<Rightarrow>
                               (Inr \<lparr>blob_data = fileData, blob_type = xlsx_mime\<rparr>,
                                logs @ [log_checking], Some f3)
                           | None \<Rightarrow>
                               (Inl (Error msg_no_output), logs @ [log_checking], Some f3)))))"


section \<open>The application (App.tsx, the variant with manual retry)\<close>

datatype AppStatus =
    IDLE | BOOTING_PYTHON | READING_FILE | ANALYZING_INSTRUCTION | GENERATING_CODE
  | EXECUTING_CODE | COMPLETED | ERROR

datatype log_type = Info | Success | Warning | Failure | Code

text \<open>
  A log entry without its timestamp (the clock is not modelled). The message is a value:
  the \<open>catch\<close> clause can log the unwrapped message of a payload, of whatever type.
\<close>

record LogEntry =
  message :: jsval
  type :: log_type

text \<open>
  The item under the storage key: absent, a record \<open>{date, count}\<close>, or text that
  \<open>JSON.parse\<close> rejects.
\<close>

record usage_record =
  date :: jsstring
  count :: int

datatype stored = NoItem | Item usage_record | Unparsable

text \<open>
  What a run does to its collaborators, in order. This is bookkeeping of the model: it
  records each \<open>setStatus\<close>, each call of the reader, of \<open>consumeUsage\<close>, of the generator
  (with the generator's own events) and of the executor.
\<close>

datatype effect =
    StatusSet AppStatus | ReaderCalled | UsageConsumed | GeneratorCalled "event list"
  | ExecutorCalled

text \<open>
  The state of the component, the local storage, the interpreter's file system
  (\<open>window.pyodideInstance\<close>) and the effects so far.
\<close>

record app_state =
  status :: AppStatus
  logs :: "LogEntry list"
  inputFile :: "File option"
  a1Instruction :: jsstring
  generatedCode :: jsstring
  outputBlob :: "Blob option"
  errorMsg :: "jsval option"
  remainingUses :: int
  localStorage :: stored
  pyodideInstance :: "fs option"
  effects :: "effect list"

text \<open>The collaborators of a run; \<open>toDateString\<close> is \<open>new Date().toDateString()\<close>.\<close>

record env =
  toDateString :: jsstring
  reader :: "bytes \<Rightarrow> js_exn + jsstring \<times> jsstring list"
  API_KEY :: "jsstring option"
  service :: "jsstring \<Rightarrow> nat \<Rightarrow> call_outcome"
  doubles :: double_ops
  json_parse :: "jsstring \<Rightarrow> jsval option"
  python :: interpreter

definition MAX_DAILY_USES :: int where
  "MAX_DAILY_USES = 50"

definition addLog :: "jsval \<Rightarrow> log_type \<Rightarrow> app_state \<Rightarrow> app_state" where
  "addLog m t st = st\<lparr>logs := logs st @ [\<lparr>message = m, type = t\<rparr>]\<rparr>"

definition setStatus :: "AppStatus \<Rightarrow> app_state \<Rightarrow> app_state" where
  "setStatus s st = st\<lparr>status := s, effects := effects st @ [StatusSet s]\<rparr>"

text \<open>The effect that loads the usage record when the component mounts.\<close>

definition loadUsage :: "jsstring \<Rightarrow> app_state \<Rightarrow> app_state" where
  "loadUsage today st =
     (case localStorage st of
        Item r \<Rightarrow>
          if date r = today
          then st\<lparr>remainingUses := max 0 (MAX_DAILY_USES - count r)\<rparr>
          else st\<lparr>localStorage := Item \<lparr>date = today, count = 0\<rparr>,
                  remainingUses := MAX_DAILY_USES\<rparr>
      | NoItem \<Rightarrow>
          st\<lparr>localStorage := Item \<lparr>date = today, count = 0\<rparr>,
             remainingUses := MAX_DAILY_USES\<rparr>
      | Unparsable \<Rightarrow> st\<lparr>remainingUses := MAX_DAILY_USES\<rparr>)"

definition consumeUsage :: "jsstring \<Rightarrow> app_state \<Rightarrow> app_state" where
  "consumeUsage today st =
     (let currentUsed = MAX_DAILY_USES - remainingUses st;
          newUsed = currentUsed + 1
      in st\<lparr>localStorage := Item \<lparr>date = today, count = newUsed\<rparr>,
            remainingUses := max 0 (MAX_DAILY_USES - newUsed),
            effects := effects st @ [UsageConsumed]\<rparr>)"

text \<open>"Today's limit of generations was reached. Try again tomorrow."\<close>
definition msg_limit :: jsstring where
  "msg_limit =
     [26412, 26085, 12398, 29983, 25104, 22238, 25968, 12398, 19978, 38480, 12395, 36948,
      12375, 12414, 12375, 12383, 12290, 26126, 26085, 12414, 12383, 12362, 35430, 12375,
      12367, 12384, 12373, 12356, 12290]"

text \<open>"Analysis started: "\<close>
definition log_start :: jsstring where
  "log_start = [35299, 26512, 38283, 22987, 58, 32]"

text \<open>"Warning: no instruction was found in cell A1."\<close>
definition log_no_instruction :: jsstring where
  "log_no_instruction =
     [35686, 21578, 58, 32, 65, 49, 12475, 12523, 12395, 25351, 31034, 12364, 35211, 12388,
      12363, 12426, 12414, 12379, 12435, 12391, 12375, 12383, 12290]"

text \<open>"(no instruction)"\<close>
definition a1_none :: jsstring where
  "a1_none = [40, 25351, 31034, 12394, 12375, 41]"

text \<open>"Enter the instruction in cell A1 of the Excel file and upload it."\<close>
definition msg_no_instruction :: jsstring where
  "msg_no_instruction =
     [69, 120, 99, 101, 108, 12501, 12449, 12452, 12523, 12398, 65, 49, 12475, 12523, 12395,
      25351, 31034, 20869, 23481, 12434, 20837, 21147, 12375, 12390, 12450, 12483, 12503,
      12525, 12540, 12489, 12375, 12390, 12367, 12384, 12373, 12356, 12290]"

text \<open>"Instruction detected: " followed by the quoted instruction\<close>
definition log_detected :: "jsstring \<Rightarrow> jsstring" where
  "log_detected a1 = [25351, 31034, 12434, 26908, 20986, 58, 32, 34] @ a1 @ [34]"

text \<open>"Sending the instruction to Gemini 3 Flash..."\<close>
definition log_sending :: jsstring where
  "log_sending =
     [71, 101, 109, 105, 110, 105, 32, 51, 32, 70, 108, 97, 115, 104, 32, 12395, 25351,
      31034, 12434, 36865, 20449, 20013, 46, 46, 46]"

text \<open>"The Python code was generated."\<close>
definition log_generated :: jsstring where
  "log_generated =
     [80, 121, 116, 104, 111, 110, 12467, 12540, 12489, 12364, 29983, 25104, 12373, 12428,
      12414, 12375, 12383, 12290]"

text \<open>"Running Python..."\<close>
definition log_executing :: jsstring where
  "log_executing = [80, 121, 116, 104, 111, 110, 12434, 23455, 34892, 20013, 46, 46, 46]"

text \<open>"All processing is complete!"\<close>
definition log_done :: jsstring where
  "log_done =
     [12377, 12409, 12390, 12398, 20966, 29702, 12364, 23436, 20102, 12375, 12414, 12375,
      12383, 65281]"

text \<open>"Retrying the processing..."\<close>
definition log_retrying :: jsstring where
  "log_retrying =
     [20966, 29702, 12434, 20877, 35430, 34892, 12375, 12390, 12356, 12414, 12377, 46, 46,
      46]"

text \<open>The \<open>catch\<close> clause of \<open>startTransformation\<close>.\<close>

definition fail_with :: "env \<Rightarrow> js_exn \<Rightarrow> app_state \<Rightarrow> app_state" where
  "fail_with ev e st =
     (let displayError = unwrap_error_payload (json_parse ev) (exn_message e);
          st1 = setStatus ERROR st
      in addLog displayError Failure (st1\<lparr>errorMsg := Some displayError\<rparr>))"

text \<open>The retry notices of the generator become warning log entries.\<close>

fun notice_logs :: "event list \<Rightarrow> LogEntry list" where
  "notice_logs [] = []"
| "notice_logs (OnRetry n m # evs) = \<lparr>message = JStr m, type = Warning\<rparr> # notice_logs evs"
| "notice_logs (ev # evs) = notice_logs evs"

definition blank_instruction :: "jsstring \<Rightarrow> bool" where
  "blank_instruction a1 \<longleftrightarrow> a1 = [] \<or> trim a1 = [] \<or> a1 = ascii ''None''"

definition startTransformation :: "env \<Rightarrow> File \<Rightarrow> app_state \<Rightarrow> app_state" where
  "startTransformation ev file st =
     (let st1 = addLog (JStr (log_start @ name file)) Info (setStatus READING_FILE st) in
      case extractA1AndColumns (reader ev) (pyodideInstance st1) file of
        (extracted, inst) \<Rightarrow>
      (let st2 = st1\<lparr>pyodideInstance := inst, effects := effects st1 @ [ReaderCalled]\<rparr> in
       case extracted of
         Inl e \<Rightarrow> fail_with ev e st2
       | Inr (a1, columns) \<Rightarrow>
           if blank_instruction a1 then
             fail_with ev (Error msg_no_instruction)
               ((addLog (JStr log_no_instruction) Warning st2)\<lparr>a1Instruction := a1_none\<rparr>)
           else
             (let st3 = (addLog (JStr (log_detected a1)) Success st2)\<lparr>a1Instruction := a1\<rparr>;
                  st4 = addLog (JStr log_sending) Info (setStatus GENERATING_CODE st3);
                  st5 = consumeUsage (toDateString ev) st4
              in case generateExcelEditCode (API_KEY ev) (service ev) (doubles ev) (json_parse ev)
                        a1 columns of
                   (generated, evs) \<Rightarrow>
                 (let st6 = st5\<lparr>logs := logs st5 @ notice_logs evs,
                                  effects := effects st5 @ [GeneratorCalled evs]\<rparr> in
                  case generated of
                    Inl e \<Rightarrow> fail_with ev e st6
                  | Inr code \<Rightarrow>
                      (let st7 = addLog (JStr log_generated) Success (st6\<lparr>generatedCode := code\<rparr>);
                           st8 = addLog (JStr log_executing) Info (setStatus EXECUTING_CODE st7)
                       in case runPythonTransformation (python ev) (pyodideInstance st8) code file of
                            (result, out, inst') \<Rightarrow>
                          (let st9 = st8\<lparr>logs := logs st8 @ map (\<lambda>m. \<lparr>message = JStr m, type = Info\<rparr>) out,
                                           pyodideInstance := inst',
                                           effects := effects st8 @ [ExecutorCalled]\<rparr> in
                           case result of
                             Inl e \<Rightarrow> fail_with ev e st9
                           | Inr resultBlob \<Rightarrow>
                               addLog (JStr log_done) Success
                                 (setStatus COMPLETED (st9\<lparr>outputBlob := Some resultBlob\<rparr>))))))))"

definition processFile :: "env \<Rightarrow> File \<Rightarrow> app_state \<Rightarrow> app_state" where
  "processFile ev file st =
     (if remainingUses st \<le> 0 then setStatus ERROR (st\<lparr>errorMsg := Some (JStr msg_limit)\<rparr>)
      else
        startTransformation ev file
          (st\<lparr>inputFile := Some file, outputBlob := None, generatedCode := [],
              a1Instruction := [], errorMsg := None\<rparr>))"

definition handleRetry :: "env \<Rightarrow> app_state \<Rightarrow> app_state" where
  "handleRetry ev st =
     (case inputFile st of
        Some file \<Rightarrow> startTransformation ev file (addLog (JStr log_retrying) Info (st\<lparr>errorMsg := None\<rparr>))
      | None \<Rightarrow> st)"

text \<open>
  When the retry button is rendered: the state is \<open>ERROR\<close>, a file is held and the error
  message contains one of the marked fragments ("is crowded", "limit", \<open>503\<close>, \<open>429\<close>,
  \<open>Rpc\<close>, \<open>xhr\<close>, "communication error").
\<close>

definition marked_fragment :: "jsstring \<Rightarrow> bool" where
  "marked_fragment m \<longleftrightarrow>
     js_includes m [28151, 12415, 21512, 12387, 12390, 12356, 12414, 12377]
     \<or> js_includes m [21046, 38480]
     \<or> js_includes m (ascii ''503'')
     \<or> js_includes m (ascii ''429'')
     \<or> js_includes m (ascii ''Rpc'')
     \<or> js_includes m (ascii ''xhr'')
     \<or> js_includes m [36890, 20449, 12456, 12521, 12540]"

text \<open>
  \<open>errorMsg?.includes(...)\<close>: \<open>null\<close> and \<open>undefined\<close> give \<open>undefined\<close>, a string is
  searched, and a value of another type has no \<open>includes\<close>, so calling it is a
  \<open>TypeError\<close>.
\<close>

definition isRetryableError :: "app_state \<Rightarrow> js_exn + bool" where
  "isRetryableError st =
     (case errorMsg st of
        None \<Rightarrow> Inr False
      | Some (JStr m) \<Rightarrow> Inr (marked_fragment m)
      | Some JUndefined \<Rightarrow> Inr False
      | Some JNull \<Rightarrow> Inr False
      | Some (JBool b) \<Rightarrow> Inl (TypeError (ascii ''errorMsg.includes is not a function''))
      | Some (JNum n) \<Rightarrow> Inl (TypeError (ascii ''errorMsg.includes is not a function'')))"

definition retry_offered :: "app_state \<Rightarrow> bool" where
  "retry_offered st \<longleftrightarrow>
     status st = ERROR \<and> isRetryableError st = Inr True \<and> inputFile st \<noteq> None"

text \<open>
  A run from state \<open>st\<close> to state \<open>st'\<close> was refused before generation: it ended in
  \<open>ERROR\<close>, the usage record and the remaining uses are as they were, and among the
  effects it added there is neither a consumed unit nor a call of the generator.
\<close>

definition new_effects :: "app_state \<Rightarrow> app_state \<Rightarrow> effect list" where
  "new_effects st st' = drop (length (effects st)) (effects st')"

fun is_generator_call :: "effect \<Rightarrow> bool" where
  "is_generator_call (GeneratorCalled evs) = True"
| "is_generator_call e = False"

definition refused :: "app_state \<Rightarrow> app_state \<Rightarrow> bool" where
  "refused st st' \<longleftrightarrow>
     status st' = ERROR \<and> localStorage st' = localStorage st
     \<and> remainingUses st' = remainingUses st
     \<and> UsageConsumed \<notin> set (new_effects st st')
     \<and> filter is_generator_call (new_effects st st') = []"

subsection \<open>Sessions over several days\<close>

text \<open>
  The usage operations of a client in the order they happen, each with the day on which it
  happens: a session starts (the component mounts with its initial state and loads the usage
  record) or the running session consumes a unit.
\<close>

datatype usage_op = Startup jsstring | Consume jsstring

fun op_day :: "usage_op \<Rightarrow> jsstring" where
  "op_day (Startup d) = d"
| "op_day (Consume d) = d"

text \<open>Whether the load on day \<open>d\<close> takes the branch that resets a record of another day.\<close>

definition load_resets :: "jsstring \<Rightarrow> stored \<Rightarrow> bool" where
  "load_resets d s = (case s of Item r \<Rightarrow> date r \<noteq> d | NoItem \<Rightarrow> False | Unparsable \<Rightarrow> False)"

text \<open>The state after the operations, and the days on which a start reset the record.\<close>

fun run_usage :: "usage_op list \<Rightarrow> app_state \<Rightarrow> app_state \<times> jsstring list" where
  "run_usage [] st = (st, [])"
| "run_usage (Startup d # ops) st =
     (case run_usage ops (loadUsage d (st\<lparr>remainingUses := MAX_DAILY_USES\<rparr>)) of
        (st', rs) \<Rightarrow> (st', if load_resets d (localStorage st) then d # rs else rs))"
| "run_usage (Consume d # ops) st = run_usage ops (consumeUsage d st)"


section \<open>Example inputs\<close>

text \<open>
  An arithmetic for the examples: every draw is 0 and the operations are exact. The
  properties below hold for every arithmetic.
\<close>

definition ops0 :: double_ops where
  "ops0 = \<lparr>Math_random = (\<lambda>k. 0), Math_pow = (\<lambda>x y. x powr y), fmul = (*), fadd = (+)\<rparr>"

text \<open>
  The error of the generation service when the quota is exhausted: the status is 429 and
  the message is the JSON text of the response body, whose own message says that the
  resource has been exhausted. \<open>json0\<close> parses that body.
\<close>

definition quota_text :: jsstring where
  "quota_text = ascii ''Resource has been exhausted (e.g. check quota).''"

definition quota_payload :: jsstring where
  "quota_payload =
     ascii ''{\"error\":{\"code\":429,\"message\":\"'' @ quota_text
     @ ascii ''\",\"status\":\"RESOURCE_EXHAUSTED\"}}''"

definition quota_error :: thrown where
  "quota_error =
     ThrownError \<lparr>err_status = JNum 429, err_code = JUndefined, err_message = quota_payload,
       err_response = None, err_json = ascii ''{\"name\":\"ApiError\",\"status\":429}''\<rparr>"

definition json0 :: "jsstring \<Rightarrow> jsval option" where
  "json0 p = (if p = quota_payload then Some (JStr quota_text) else None)"

text \<open>
  A client whose last unit of the day went into a generation that failed with the overload
  message: no uses remain, the file is still held and the retry button is shown. The
  collaborators of the next run: the workbook holds the instruction \<open>sort\<close>, the service
  answers \<open>x\<close> at once, and the script writes \<open>output.xlsx\<close>.
\<close>

definition day0 :: jsstring where
  "day0 = ascii ''Mon Jan 01 2024''"

definition day1 :: jsstring where
  "day1 = ascii ''Tue Jan 02 2024''"

definition file0 :: File where
  "file0 = \<lparr>name = ascii ''book.xlsx'', content = [80, 75]\<rparr>"

definition st0 :: app_state where
  "st0 = \<lparr>status = ERROR, logs = [], inputFile = Some file0, a1Instruction = ascii ''sort'',
           generatedCode = [], outputBlob = None, errorMsg = Some (JStr msg_overloaded),
           remainingUses = 0, localStorage = Item \<lparr>date = day0, count = 50\<rparr>,
           pyodideInstance = Some Map.empty, effects = []\<rparr>"

definition ev0 :: env where
  "ev0 = \<lparr>toDateString = day0,
           reader = (\<lambda>b. Inr (ascii ''sort'', [ascii ''A''])),
           API_KEY = Some (ascii ''k''),
           service = (\<lambda>p k. Responds (Some [120])),
           doubles = ops0,
           json_parse = (\<lambda>p. None),
           python = (\<lambda>script g. ([], None, g(''output.xlsx'' \<mapsto> [80, 75])))\<rparr>"

text \<open>A fresh session that has not loaded anything yet, with an empty local storage.\<close>

definition fresh :: app_state where
  "fresh = \<lparr>status = IDLE, logs = [], inputFile = None, a1Instruction = [],
            generatedCode = [], outputBlob = None, errorMsg = None,
            remainingUses = MAX_DAILY_USES, localStorage = NoItem,
            pyodideInstance = Some Map.empty, effects = []\<rparr>"

section \<open>Properties of the executor\<close>

lemma cleanup_output_eq: "cleanup_output f = f(''output.xlsx'' := None)"
  by (auto simp: cleanup_output_def FS_unlink_def fun_eq_iff domIff)

lemma no_output_not_wrapped: "msg_no_output \<noteq> exec_prefix @ m"
  by (simp add: msg_no_output_def exec_prefix_def)


text \<open>
  Claim C1, as amended. When the interpreter is initialised and the generated script ends
  without raising, \<open>runPythonTransformation\<close> fails with the "no output produced" error
  if \<open>output.xlsx\<close> does not exist afterwards, and returns the bytes of \<open>output.xlsx\<close>
  as the output artifact if it does. When the script raises, the error is the wrapped one,
  "execution error: " followed by the script's message, whether or not \<open>output.xlsx\<close>
  exists; the "no output produced" error differs from every wrapped error.
\<close>

theorem C1_no_output_or_bytes:
  assumes "py script (cleanup_output (FS_writeFile f ''input.xlsx'' (content inp))) = (out, raised, f3)"
  shows "(raised = None \<and> f3 ''output.xlsx'' = None \<longrightarrow>
            fst (runPythonTransformation py (Some f) script inp) = Inl (Error msg_no_output))
       \<and> (\<forall>fileData. raised = None \<and> f3 ''output.xlsx'' = Some fileData \<longrightarrow>
            fst (runPythonTransformation py (Some f) script inp)
              = Inr \<lparr>blob_data = fileData, blob_type = xlsx_mime\<rparr>)
       \<and> (\<forall>m. raised = Some m \<longrightarrow>
            fst (runPythonTransformation py (Some f) script inp) = Inl (Error (exec_prefix @ m)))
       \<and> (\<forall>m. Error msg_no_output \<noteq> Error (exec_prefix @ m))"
  using assms by (auto simp: runPythonTransformation_def Let_def no_output_not_wrapped)


theorem C1_no_output_or_bytes_witness:
  "fst (runPythonTransformation (\<lambda>script g. ([], None, g)) (Some Map.empty) [] \<lparr>name = [], content = [1]\<rparr>)
     = Inl (Error msg_no_output)
   \<and> fst (runPythonTransformation (\<lambda>script g. ([], None, g(''output.xlsx'' \<mapsto> [80, 75]))) (Some Map.empty) []
        \<lparr>name = [], content = [1]\<rparr>) = Inr \<lparr>blob_data = [80, 75], blob_type = xlsx_mime\<rparr>
   \<and> fst (runPythonTransformation (\<lambda>script g. ([], Some [66], g)) (Some Map.empty) []
        \<lparr>name = [], content = [1]\<rparr>) = Inl (Error (exec_prefix @ [66]))"
  using C1_no_output_or_bytes [of "\<lambda>script g. ([], None, g)" "[]" Map.empty "\<lparr>name = [], content = [1]\<rparr>" "[]" None
          "cleanup_output (FS_writeFile Map.empty ''input.xlsx'' [1])"]
        C1_no_output_or_bytes [of "\<lambda>script g. ([], None, g(''output.xlsx'' \<mapsto> [80, 75]))" "[]" Map.empty
          "\<lparr>name = [], content = [1]\<rparr>" "[]" None
          "(cleanup_output (FS_writeFile Map.empty ''input.xlsx'' [1]))(''output.xlsx'' \<mapsto> [80, 75])"]
        C1_no_output_or_bytes [of "\<lambda>script g. ([], Some [66], g)" "[]" Map.empty
          "\<lparr>name = [], content = [1]\<rparr>" "[]" "Some [66]"
          "cleanup_output (FS_writeFile Map.empty ''input.xlsx'' [1])"]
  by (simp add: cleanup_output_eq)

text \<open>
  The claim as first stated fails for a script that writes \<open>output.xlsx\<close> and then
  raises: the file exists after the execution, and the function raises the wrapped error
  instead of returning the bytes.
\<close>

theorem C1_counterexample:
  "fst (runPythonTransformation (\<lambda>script g. ([], Some (ascii ''boom''), g(''output.xlsx'' \<mapsto> [80, 75])))
          (Some Map.empty) [] file0)
     = Inl (Error (exec_prefix @ ascii ''boom''))
   \<and> map_option (\<lambda>g. g ''output.xlsx'')
        (snd (snd (runPythonTransformation
                     (\<lambda>script g. ([], Some (ascii ''boom''), g(''output.xlsx'' \<mapsto> [80, 75])))
                     (Some Map.empty) [] file0)))
     = Some (Some [80, 75])"
  by (simp add: runPythonTransformation_def Let_def)

text \<open>
  Claim C9. Before the script runs, \<open>output.xlsx\<close> is removed: the cleanup leaves no file
  under that name and touches no other path; when no such file exists, \<open>unlink\<close> fails
  with \<open>ENOENT\<close>, the failure is discarded and the file system is unchanged. The script is
  then run on the file system that holds the input and no \<open>output.xlsx\<close>, whether or not
  a file was there before, and the run goes on from what the script did: the file system
  afterwards is the one the script left, the logs are those of the run, and the result is
  the wrapped error, the bytes the script wrote, or the "no output produced" error. A file
  left at that name by an earlier run never changes the outcome.
\<close>

theorem C9_cleanup_before_run:
  "cleanup_output f ''output.xlsx'' = None
   \<and> (\<forall>p. p \<noteq> ''output.xlsx'' \<longrightarrow> cleanup_output f p = f p)
   \<and> (f ''output.xlsx'' = None \<longrightarrow> FS_unlink f ''output.xlsx'' = Inl ENOENT \<and> cleanup_output f = f)
   \<and> (\<forall>out raised f3.
         py script ((f(''input.xlsx'' \<mapsto> content inp))(''output.xlsx'' := None)) = (out, raised, f3) \<longrightarrow>
           snd (snd (runPythonTransformation py (Some f) script inp)) = Some f3
           \<and> fst (snd (runPythonTransformation py (Some f) script inp))
               = [log_prepare, log_running] @ map (\<lambda>msg. ascii ''[Python] '' @ msg) out
                 @ (if raised = None then [log_checking] else [])
           \<and> fst (runPythonTransformation py (Some f) script inp)
               = (case raised of
                    Some m \<Rightarrow> Inl (Error (exec_prefix @ m))
                  | None \<Rightarrow>
                      (case f3 ''output.xlsx'' of
                         Some fileData \<Rightarrow> Inr \<lparr>blob_data = fileData, blob_type = xlsx_mime\<rparr>
                       | None \<Rightarrow> Inl (Error msg_no_output))))
   \<and> (\<forall>stale. runPythonTransformation py (Some (f(''output.xlsx'' \<mapsto> stale))) script inp
         = runPythonTransformation py (Some (f(''output.xlsx'' := None))) script inp)
   \<and> runPythonTransformation py (Some f) script inp
         = runPythonTransformation py (Some (f(''output.xlsx'' := None))) script inp"
proof (intro conjI allI impI)
  have w: "cleanup_output (FS_writeFile g ''input.xlsx'' (content inp))
      = cleanup_output (FS_writeFile (g(''output.xlsx'' := None)) ''input.xlsx'' (content inp))" for g
    by (auto simp: cleanup_output_eq FS_writeFile_def fun_eq_iff)
  have c: "cleanup_output (FS_writeFile f ''input.xlsx'' (content inp))
      = (f(''input.xlsx'' \<mapsto> content inp))(''output.xlsx'' := None)"
    by (simp add: cleanup_output_eq FS_writeFile_def)
  show "runPythonTransformation py (Some f) script inp
      = runPythonTransformation py (Some (f(''output.xlsx'' := None))) script inp"
    unfolding runPythonTransformation_def option.case Let_def by (subst w) (rule refl)
  show "runPythonTransformation py (Some (f(''output.xlsx'' \<mapsto> stale))) script inp
         = runPythonTransformation py (Some (f(''output.xlsx'' := None))) script inp" for stale
    unfolding runPythonTransformation_def option.case Let_def by (subst w) simp
  show "cleanup_output f ''output.xlsx'' = None"
    by (simp add: cleanup_output_eq)
  show "cleanup_output f p = f p" if "p \<noteq> ''output.xlsx''" for p
    using that by (simp add: cleanup_output_eq)
  show "FS_unlink f ''output.xlsx'' = Inl ENOENT" if "f ''output.xlsx'' = None"
    using that by (simp add: FS_unlink_def domIff)
  show "cleanup_output f = f" if "f ''output.xlsx'' = None"
    using that by (auto simp: cleanup_output_eq fun_eq_iff)
  fix out raised f3
  assume r: "py script ((f(''input.xlsx'' \<mapsto> content inp))(''output.xlsx'' := None)) = (out, raised, f3)"
  have e: "runPythonTransformation py (Some f) script inp =
      (case raised of
         Some m \<Rightarrow> (Inl (Error (exec_prefix @ m)),
                    [log_prepare, log_running] @ map (\<lambda>msg. ascii ''[Python] '' @ msg) out, Some f3)
       | None \<Rightarrow>
           (case f3 ''output.xlsx'' of
              Some fileData \<Rightarrow>
                (Inr \<lparr>blob_data = fileData, blob_type = xlsx_mime\<rparr>,
                 ([log_prepare, log_running] @ map (\<lambda>msg. ascii ''[Python] '' @ msg) out) @ [log_checking],
                 Some f3)
            | None \<Rightarrow>
                (Inl (Error msg_no_output),
                 ([log_prepare, log_running] @ map (\<lambda>msg. ascii ''[Python] '' @ msg) out) @ [log_checking],
                 Some f3)))"
    unfolding runPythonTransformation_def option.case Let_def c r prod.case ..
  show "snd (snd (runPythonTransformation py (Some f) script inp)) = Some f3"
    unfolding e by (simp split: option.splits)
  show "fst (snd (runPythonTransformation py (Some f) script inp))
               = [log_prepare, log_running] @ map (\<lambda>msg. ascii ''[Python] '' @ msg) out
                 @ (if raised = None then [log_checking] else [])"
    unfolding e by (simp split: option.splits)
  show "fst (runPythonTransformation py (Some f) script inp)
               = (case raised of
                    Some m \<Rightarrow> Inl (Error (exec_prefix @ m))
                  | None \<Rightarrow>
                      (case f3 ''output.xlsx'' of
                         Some fileData \<Rightarrow> Inr \<lparr>blob_data = fileData, blob_type = xlsx_mime\<rparr>
                       | None \<Rightarrow> Inl (Error msg_no_output)))"
    unfolding e by (simp split: option.splits)
qed

theorem C9_cleanup_before_run_witness:
  "FS_unlink Map.empty ''output.xlsx'' = Inl ENOENT
   \<and> cleanup_output Map.empty = Map.empty
   \<and> cleanup_output [''output.xlsx'' \<mapsto> [1]] ''a.txt'' = [''output.xlsx'' \<mapsto> [1]] ''a.txt''
   \<and> runPythonTransformation (\<lambda>script g. ([[104, 105]], None, g)) (Some [''output.xlsx'' \<mapsto> [1]]) []
        \<lparr>name = [], content = [7]\<rparr>
      = (Inl (Error msg_no_output),
         [log_prepare, log_running, ascii ''[Python] '' @ [104, 105], log_checking],
         Some [''input.xlsx'' \<mapsto> [7]])
   \<and> fst (runPythonTransformation (\<lambda>script g. ([], None, g(''output.xlsx'' \<mapsto> [80, 75]))) (Some Map.empty) []
        \<lparr>name = [], content = [7]\<rparr>) = Inr \<lparr>blob_data = [80, 75], blob_type = xlsx_mime\<rparr>"
proof (intro conjI)
  note a = C9_cleanup_before_run [of Map.empty "\<lambda>script g. ([], None, g(''output.xlsx'' \<mapsto> [80, 75]))" "[]"
      "\<lparr>name = [], content = [7]\<rparr>"]
  note b = C9_cleanup_before_run [of "[''output.xlsx'' \<mapsto> [1]]" "\<lambda>script g. ([[104, 105]], None, g)" "[]"
      "\<lparr>name = [], content = [7]\<rparr>"]
  have e: "Map.empty ''output.xlsx'' = (None :: bytes option)" by simp
  have n: "''a.txt'' \<noteq> ''output.xlsx''" by simp
  from a [THEN conjunct2, THEN conjunct2, THEN conjunct1, rule_format, OF e]
  show "FS_unlink Map.empty ''output.xlsx'' = Inl ENOENT" and "cleanup_output Map.empty = (Map.empty :: fs)"
    by (rule conjunct1, rule conjunct2)
  from b [THEN conjunct2, THEN conjunct1, rule_format, OF n]
  show "cleanup_output [''output.xlsx'' \<mapsto> [1]] ''a.txt'' = [''output.xlsx'' \<mapsto> [1]] ''a.txt''" .
  have rb: "(\<lambda>script g. ([[104, 105]], None, g)) ([]::jsstring)
        (([''output.xlsx'' \<mapsto> [1]](''input.xlsx'' \<mapsto> content \<lparr>name = [], content = [7]\<rparr>))(''output.xlsx'' := None))
      = ([[104, 105]], None, [''input.xlsx'' \<mapsto> [7]])"
    by (auto simp: fun_eq_iff)
  from b [THEN conjunct2, THEN conjunct2, THEN conjunct2, THEN conjunct1, rule_format, OF rb]
  show "runPythonTransformation (\<lambda>script g. ([[104, 105]], None, g)) (Some [''output.xlsx'' \<mapsto> [1]]) []
        \<lparr>name = [], content = [7]\<rparr>
      = (Inl (Error msg_no_output),
         [log_prepare, log_running, ascii ''[Python] '' @ [104, 105], log_checking],
         Some [''input.xlsx'' \<mapsto> [7]])"
    by (cases "runPythonTransformation (\<lambda>script g. ([[104, 105]], None, g)) (Some [''output.xlsx'' \<mapsto> [1]]) []
        \<lparr>name = [], content = [7]\<rparr>") simp
  have ra: "(\<lambda>script g. ([], None, g(''output.xlsx'' \<mapsto> [80, 75]))) ([]::jsstring)
        ((Map.empty(''input.xlsx'' \<mapsto> content \<lparr>name = [], content = [7]\<rparr>))(''output.xlsx'' := None))
      = ([], None, [''input.xlsx'' \<mapsto> [7], ''output.xlsx'' \<mapsto> [80, 75]])"
    by (auto simp: fun_eq_iff)
  from a [THEN conjunct2, THEN conjunct2, THEN conjunct2, THEN conjunct1, rule_format, OF ra]
  show "fst (runPythonTransformation (\<lambda>script g. ([], None, g(''output.xlsx'' \<mapsto> [80, 75]))) (Some Map.empty) []
        \<lparr>name = [], content = [7]\<rparr>) = Inr \<lparr>blob_data = [80, 75], blob_type = xlsx_mime\<rparr>"
    by simp
qed

section \<open>Properties of the retry loop\<close>

lemma attempt_loop_success:
  "attempt \<le> maxRetries \<Longrightarrow> try_body (call attempt) = Inr script
     \<Longrightarrow> attempt_loop call fp attempt lastErr = (Inr script, [Call attempt])"
  by (subst attempt_loop.simps) simp

lemma attempt_loop_stop:
  "attempt \<le> maxRetries \<Longrightarrow> try_body (call attempt) = Inl error
     \<Longrightarrow> \<not> (isRetryable error \<and> attempt < maxRetries)
     \<Longrightarrow> attempt_loop call fp attempt lastErr = (Inl (Some error), [Call attempt])"
  by (subst attempt_loop.simps) auto

lemma attempt_loop_retry:
  "attempt < maxRetries \<Longrightarrow> try_body (call attempt) = Inl error \<Longrightarrow> isRetryable error
     \<Longrightarrow> attempt_loop call fp attempt lastErr =
          (fst (attempt_loop call fp (Suc attempt) (Some error)),
           retry_events fp attempt (Suc attempt) @ snd (attempt_loop call fp (Suc attempt) (Some error)))"
  by (subst attempt_loop.simps) (simp add: retry_events_def split: prod.splits)

lemma attempt_loop_last:
  "attempt \<le> maxRetries \<Longrightarrow> attempt_loop call fp attempt l1 = attempt_loop call fp attempt l2"
  by (subst attempt_loop.simps, subst (2) attempt_loop.simps) simp

lemma retry_events_step: "a < b \<Longrightarrow> retry_events fp a b = retry_events fp a (Suc a) @ retry_events fp (Suc a) b"
  by (simp add: retry_events_def upt_conv_Cons)

lemma retry_events_same [simp]: "retry_events fp a a = []"
  by (simp add: retry_events_def)

lemma calls_append [simp]: "calls (xs @ ys) = calls xs @ calls ys"
  by (induction xs rule: calls.induct) auto

lemma calls_retry_events [simp]: "calls (retry_events fp a b) = [a..<b]"
  by (induction b) (auto simp: retry_events_def)

lemma attempt_loop_retries:
  assumes "b \<le> maxRetries"
    and "\<forall>k. a \<le> k \<and> k < b \<longrightarrow> (\<exists>e. try_body (call k) = Inl e \<and> isRetryable e)"
    and "a \<le> b"
  shows "attempt_loop call fp a lastErr =
           (fst (attempt_loop call fp b lastErr), retry_events fp a b @ snd (attempt_loop call fp b lastErr))"
  using assms
proof (induction "b - a" arbitrary: a lastErr)
  case 0
  then show ?case by simp
next
  case (Suc n)
  then have ab: "a < b" by simp
  with Suc.prems obtain e where e: "try_body (call a) = Inl e" "isRetryable e"
    by (metis le_refl)
  have step: "attempt_loop call fp a lastErr =
          (fst (attempt_loop call fp (Suc a) (Some e)),
           retry_events fp a (Suc a) @ snd (attempt_loop call fp (Suc a) (Some e)))"
    using ab Suc.prems(1) e by (intro attempt_loop_retry) auto
  have ih: "attempt_loop call fp (Suc a) (Some e) =
           (fst (attempt_loop call fp b (Some e)),
            retry_events fp (Suc a) b @ snd (attempt_loop call fp b (Some e)))"
    using Suc.hyps(2) Suc.prems ab by (intro Suc.hyps(1)) auto
  have "attempt_loop call fp b (Some e) = attempt_loop call fp b lastErr"
    using Suc.prems(1) by (rule attempt_loop_last)
  with step ih show ?case
    using retry_events_step [OF ab, of fp] by simp
qed

lemma show_nat_nonempty: "show_nat n \<noteq> []"
  by (subst show_nat.simps) simp

lemma show_nat_inj: "show_nat m = show_nat n \<Longrightarrow> m = n"
proof (induction m arbitrary: n rule: show_nat.induct)
  case (1 m)
  show ?case
  proof (cases "m < 10")
    case True
    show ?thesis
    proof (cases "n < 10")
      case True
      with \<open>m < 10\<close> "1.prems" show ?thesis
        by (subst (asm) show_nat.simps, subst (asm) (2) show_nat.simps) simp
    next
      case False
      with \<open>m < 10\<close> "1.prems" show ?thesis
        using show_nat_nonempty [of "n div 10"]
        by (subst (asm) show_nat.simps, subst (asm) (2) show_nat.simps) simp
    qed
  next
    case False
    show ?thesis
    proof (cases "n < 10")
      case True
      with \<open>\<not> m < 10\<close> "1.prems" show ?thesis
        using show_nat_nonempty [of "m div 10"]
        by (subst (asm) show_nat.simps, subst (asm) (2) show_nat.simps) simp
    next
      case False
      with \<open>\<not> m < 10\<close> "1.prems"
      have "show_nat (m div 10) = show_nat (n div 10) \<and> m mod 10 = n mod 10"
        by (subst (asm) show_nat.simps, subst (asm) (2) show_nat.simps) simp
      with "1.IH" [OF \<open>\<not> m < 10\<close>] have "m div 10 = n div 10" "m mod 10 = n mod 10"
        by auto
      then show ?thesis by (metis div_mult_mod_eq)
    qed
  qed
qed

lemma show_nat_503: "show_nat 503 = ascii ''503''"
  by (simp add: show_nat.simps ascii_def)

lemma show_nat_429: "show_nat 429 = ascii ''429''"
  by (simp add: show_nat.simps ascii_def)

lemma show_int_503: "show_int i = ascii ''503'' \<longleftrightarrow> i = 503"
proof
  assume a: "show_int i = ascii ''503''"
  show "i = 503"
  proof (cases "i < 0")
    case True
    with a show ?thesis by (simp add: show_int_def ascii_def)
  next
    case False
    with a have "show_nat (nat i) = show_nat 503" by (simp add: show_int_def show_nat_503)
    then have "nat i = 503" by (rule show_nat_inj)
    with False show ?thesis by simp
  qed
next
  assume "i = 503"
  then show "show_int i = ascii ''503''" by (simp add: show_int_def show_nat_503)
qed

lemma show_int_429: "show_int i = ascii ''429'' \<longleftrightarrow> i = 429"
proof
  assume a: "show_int i = ascii ''429''"
  show "i = 429"
  proof (cases "i < 0")
    case True
    with a show ?thesis by (simp add: show_int_def ascii_def)
  next
    case False
    with a have "show_nat (nat i) = show_nat 429" by (simp add: show_int_def show_nat_429)
    then have "nat i = 429" by (rule show_nat_inj)
    with False show ?thesis by simp
  qed
next
  assume "i = 429"
  then show "show_int i = ascii ''429''" by (simp add: show_int_def show_nat_429)
qed

lemma String_503: "String v = ascii ''503'' \<longleftrightarrow> v = JNum 503 \<or> v = JStr (ascii ''503'')"
  by (cases v) (simp_all add: show_int_503, simp_all add: ascii_def)

lemma String_429: "String v = ascii ''429'' \<longleftrightarrow> v = JNum 429 \<or> v = JStr (ascii ''429'')"
  by (cases v) (simp_all add: show_int_429, simp_all add: ascii_def)

lemma spec_retryable_iff: "spec_retryable error \<longleftrightarrow> isRetryable error"
  unfolding spec_retryable_def isRetryable_def String_503 String_429 by blast

lemma isRetryable_503: "isRetryable (ThrownString (ascii ''503''))"
  by (simp add: isRetryable_def ascii_def)

lemma empty_response_not_retryable: "\<not> isRetryable (ThrownError (new_Error msg_empty_response))"
  by (simp add: isRetryable_def new_Error_def msg_empty_response_def js_or_def ascii_def
      toLowerCase_def lower_unit_def)

lemma empty_response_final:
  "final_error jm (Some (ThrownError (new_Error msg_empty_response))) = Error (err_prefix @ msg_empty_response)"
  by (simp add: final_error_def classify_message_def finalMessage_def unwrap_error_payload_def
      new_Error_def msg_empty_response_def indicates_overload_def indicates_quota_def ascii_def
      toLowerCase_def lower_unit_def)

lemma try_body_empty:
  "text = None \<or> text = Some [] \<Longrightarrow> try_body (Responds text) = Inl (ThrownError (new_Error msg_empty_response))"
  by (auto simp: try_body_def parse_response_def)

text \<open>
  Claim C10. When the service answers with a missing or empty text at attempt \<open>n\<close>, after
  \<open>n\<close> retried failures, \<open>generateExcelEditCode\<close> raises at once: the events end with
  the call of attempt \<open>n\<close>, with no sleep and no further call after it, also when
  \<open>n\<close> is below the ceiling; the error thrown for the empty response matches none of the
  retryable patterns.
\<close>

theorem C10_empty_response_stops:
  assumes "key \<noteq> []" and "n \<le> maxRetries"
    and "\<forall>k<n. \<exists>e. svc (prompt a1 columns) k = Fails e \<and> isRetryable e"
    and "svc (prompt a1 columns) n = Responds text" and "text = None \<or> text = Some []"
  shows "generateExcelEditCode (Some key) svc fp jm a1 columns
           = (Inl (Error (err_prefix @ msg_empty_response)), retry_events fp 0 n @ [Call n])
       \<and> calls (snd (generateExcelEditCode (Some key) svc fp jm a1 columns)) = [0..<Suc n]
       \<and> \<not> isRetryable (ThrownError (new_Error msg_empty_response))"
proof -
  let ?call = "svc (prompt a1 columns)"
  have pre: "\<forall>k. 0 \<le> k \<and> k < n \<longrightarrow> (\<exists>e. try_body (?call k) = Inl e \<and> isRetryable e)"
    using assms(3) by (auto simp: try_body_def)
  have stop: "attempt_loop ?call fp n None
      = (Inl (Some (ThrownError (new_Error msg_empty_response))), [Call n])"
    using assms(2) try_body_empty [OF assms(5)] empty_response_not_retryable
    by (intro attempt_loop_stop) (auto simp: assms(4))
  have "attempt_loop ?call fp 0 None
      = (Inl (Some (ThrownError (new_Error msg_empty_response))), retry_events fp 0 n @ [Call n])"
    using attempt_loop_retries [OF assms(2) pre, of fp None] stop by simp
  then show ?thesis
    using assms(1) empty_response_not_retryable
    by (simp add: generateExcelEditCode_def empty_response_final)
qed

theorem C10_empty_response_stops_witness:
  "generateExcelEditCode (Some (ascii ''k'')) (\<lambda>p (k::nat). if k < 2 then Fails (ThrownString (ascii ''503'')) else Responds None)
       ops0 (\<lambda>p. None) [] []
     = (Inl (Error (err_prefix @ msg_empty_response)), retry_events ops0 0 2 @ [Call 2])"
proof -
  let ?svc = "\<lambda>p (k::nat). if k < 2 then Fails (ThrownString (ascii ''503'')) else Responds None"
  have h1: "ascii ''k'' \<noteq> []" by (simp add: ascii_def)
  have h2: "2 \<le> maxRetries" by (simp add: maxRetries_def)
  have h3: "\<forall>k<2. \<exists>e. ?svc (prompt [] []) k = Fails e \<and> isRetryable e"
    using isRetryable_503 by simp
  have h4: "?svc (prompt [] []) 2 = Responds None" by simp
  show ?thesis
    using C10_empty_response_stops [of "ascii ''k''" 2 ?svc "[]" "[]" None ops0 "\<lambda>p. None", OF h1 h2 h3 h4]
    by simp
qed

lemma attempt_loop_first_call:
  "attempt \<le> maxRetries \<Longrightarrow> \<exists>evs. snd (attempt_loop call fp attempt lastErr) = Call attempt # evs"
  by (subst attempt_loop.simps) (simp split: sum.splits prod.splits)

text \<open>
  Claim C5. For an error caught at an attempt within the ceiling, the loop goes on to the
  next attempt exactly when the attempt number is below the ceiling and the error is
  retryable in the words of the specification. In that case it records the notice, sleeps
  for the backoff delay and continues with the next attempt; otherwise it stops at once:
  the call of this attempt is the last event and the caught error is the last error.
\<close>

theorem C5_retry_iff_retryable:
  assumes "attempt \<le> maxRetries" and "try_body (call attempt) = Inl error"
  shows "(Suc attempt \<in> set (calls (snd (attempt_loop call fp attempt lastErr)))
            \<longleftrightarrow> attempt < maxRetries \<and> spec_retryable error)
       \<and> (attempt < maxRetries \<and> spec_retryable error \<longrightarrow>
            attempt_loop call fp attempt lastErr =
              (fst (attempt_loop call fp (Suc attempt) (Some error)),
               [Call attempt, OnRetry (attempt + 1) (retry_notice attempt),
                Delay (backoffMs fp attempt)]
               @ snd (attempt_loop call fp (Suc attempt) (Some error))))
       \<and> (\<not> (attempt < maxRetries \<and> spec_retryable error) \<longrightarrow>
            attempt_loop call fp attempt lastErr = (Inl (Some error), [Call attempt]))"
proof (cases "attempt < maxRetries \<and> spec_retryable error")
  case True
  then have r: "attempt < maxRetries" "isRetryable error"
    by (simp_all add: spec_retryable_iff)
  have step: "attempt_loop call fp attempt lastErr =
          (fst (attempt_loop call fp (Suc attempt) (Some error)),
           retry_events fp attempt (Suc attempt) @ snd (attempt_loop call fp (Suc attempt) (Some error)))"
    using attempt_loop_retry [of attempt call error fp lastErr] r assms(2) by simp
  obtain evs where "snd (attempt_loop call fp (Suc attempt) (Some error)) = Call (Suc attempt) # evs"
    using attempt_loop_first_call [of "Suc attempt" call fp "Some error"] r(1) by auto
  with step True show ?thesis by (simp add: retry_events_def)
next
  case False
  then have "\<not> (isRetryable error \<and> attempt < maxRetries)"
    by (auto simp: spec_retryable_iff)
  then have "attempt_loop call fp attempt lastErr = (Inl (Some error), [Call attempt])"
    using assms by (intro attempt_loop_stop)
  with False show ?thesis by simp
qed

theorem C5_retry_iff_retryable_witness:
  "attempt_loop (\<lambda>k. Fails (ThrownString (ascii ''503''))) ops0 8 None
     = (Inl (Some (ThrownString (ascii ''503''))), [Call 8])
   \<and> attempt_loop (\<lambda>k. Fails (ThrownString (ascii ''503''))) ops0 7 None
     = (Inl (Some (ThrownString (ascii ''503''))),
        [Call 7, OnRetry 8 (retry_notice 7), Delay (backoffMs ops0 7), Call 8])
   \<and> attempt_loop (\<lambda>k. Fails (ThrownString (ascii ''bad request''))) ops0 0 None
     = (Inl (Some (ThrownString (ascii ''bad request''))), [Call 0])"
proof -
  have n: "\<not> spec_retryable (ThrownString (ascii ''bad request''))"
    by (simp add: spec_retryable_iff isRetryable_def ascii_def toLowerCase_def lower_unit_def)
  have y: "spec_retryable (ThrownString (ascii ''503''))"
    by (simp add: spec_retryable_iff isRetryable_503)
  show ?thesis
    using C5_retry_iff_retryable [of 8 "\<lambda>k. Fails (ThrownString (ascii ''503''))" "ThrownString (ascii ''503'')" ops0 None]
      C5_retry_iff_retryable [of 7 "\<lambda>k. Fails (ThrownString (ascii ''503''))" "ThrownString (ascii ''503'')" ops0 None]
      C5_retry_iff_retryable [of 8 "\<lambda>k. Fails (ThrownString (ascii ''503''))" "ThrownString (ascii ''503'')" ops0
         "Some (ThrownString (ascii ''503''))"]
      C5_retry_iff_retryable [of 0 "\<lambda>k. Fails (ThrownString (ascii ''bad request''))" "ThrownString (ascii ''bad request'')" ops0 None]
      n y
    by (simp add: maxRetries_def try_body_def)
qed

lemma exhausted_result:
  assumes "key \<noteq> []"
    and "\<forall>k \<le> maxRetries. svc (prompt a1 columns) k = Fails (errs k) \<and> isRetryable (errs k)"
  shows "generateExcelEditCode (Some key) svc fp jm a1 columns
           = (Inl (final_error jm (Some (errs maxRetries))),
              retry_events fp 0 maxRetries @ [Call maxRetries])"
proof -
  let ?call = "svc (prompt a1 columns)"
  have pre: "\<forall>k. 0 \<le> k \<and> k < maxRetries \<longrightarrow> (\<exists>e. try_body (?call k) = Inl e \<and> isRetryable e)"
    using assms(2) by (auto simp: try_body_def)
  have "try_body (?call maxRetries) = Inl (errs maxRetries)"
    using assms(2) by (simp add: try_body_def)
  then have stop: "attempt_loop ?call fp maxRetries None = (Inl (Some (errs maxRetries)), [Call maxRetries])"
    by (intro attempt_loop_stop) auto
  have "attempt_loop ?call fp 0 None
      = (Inl (Some (errs maxRetries)), retry_events fp 0 maxRetries @ [Call maxRetries])"
    using attempt_loop_retries [OF _ pre, of fp None] stop by simp
  then show ?thesis
    using assms(1) by (simp add: generateExcelEditCode_def)
qed

lemma quota_payload_match: "match_error_payload quota_payload = Some quota_payload"
  by (simp add: quota_payload_def quota_text_def error_open_def ascii_def is_line_terminator_def)

lemma quota_final:
  "final_error json0 (Some quota_error) = Error (err_prefix @ quota_text)"
proof -
  have i: "js_includes quota_payload (ascii ''{\"error\"'')"
    by (simp add: quota_payload_def ascii_def)
  have "finalMessage json0 quota_error = JStr quota_text"
    using i by (simp add: finalMessage_def unwrap_error_payload_def quota_error_def
        quota_payload_match json0_def js_or_def)
      (simp add: quota_payload_def quota_text_def ascii_def)
  moreover have "classify_message quota_text = Error (err_prefix @ quota_text)"
    by (simp add: classify_message_def indicates_overload_def indicates_quota_def quota_text_def
        ascii_def toLowerCase_def lower_unit_def)
  ultimately show ?thesis by (simp add: final_error_def)
qed

text \<open>
  Claim C6 fails on the quota error of the service. Every call fails with the error whose
  status is 429 and whose message is the JSON body naming code 429 and status
  \<open>RESOURCE_EXHAUSTED\<close>; it is retryable, and the generator stops after the nine calls of
  attempts 0 to 8. The final classification reads the message only after unwrapping the
  body, which leaves "Resource has been exhausted (e.g. check quota).": the error raised
  is the generic "error: ..." message, not the quota message, although the raw message
  and the status both indicate 429.
\<close>

theorem C6_quota_message_lost:
  "spec_retryable quota_error
   \<and> error_status quota_error = JNum 429
   \<and> indicates_quota quota_payload
   \<and> generateExcelEditCode (Some (ascii ''k'')) (\<lambda>p k. Fails quota_error) ops0 json0 [] []
       = (Inl (Error (err_prefix @ quota_text)), retry_events ops0 0 8 @ [Call 8])
   \<and> calls (snd (generateExcelEditCode (Some (ascii ''k'')) (\<lambda>p k. Fails quota_error) ops0 json0 [] []))
       = [0, 1, 2, 3, 4, 5, 6, 7, 8]
   \<and> err_prefix @ quota_text \<noteq> msg_quota
   \<and> err_prefix @ quota_text \<noteq> msg_overloaded"
proof -
  have k: "ascii ''k'' \<noteq> []" by (simp add: ascii_def)
  have q: "indicates_quota quota_payload"
    by (simp add: indicates_quota_def quota_payload_def ascii_def)
  then have r: "isRetryable quota_error"
    by (simp add: isRetryable_def indicates_quota_def quota_error_def quota_payload_def ascii_def)
  have s: "error_status quota_error = JNum 429"
    by (simp add: quota_error_def js_or_def)
  have g: "generateExcelEditCode (Some (ascii ''k'')) (\<lambda>p k. Fails quota_error) ops0 json0 [] []
       = (Inl (Error (err_prefix @ quota_text)), retry_events ops0 0 8 @ [Call 8])"
    using exhausted_result [of "ascii ''k''" "\<lambda>p k. Fails quota_error" "[]" "[]"
        "\<lambda>k. quota_error" ops0 json0] k r
    by (simp add: quota_final maxRetries_def)
  have c: "[0..<8] @ [8] = [0, 1, 2, 3, 4, 5, 6, 7, 8::nat]"
    by (simp add: upt_rec)
  have n: "err_prefix @ quota_text \<noteq> msg_quota" "err_prefix @ quota_text \<noteq> msg_overloaded"
    by (simp_all add: err_prefix_def msg_quota_def msg_overloaded_def)
  show ?thesis
    using r q s g c n by (simp add: spec_retryable_iff)
qed

section \<open>Properties of the response parser\<close>

lemma find_sub_first:
  "n \<le> length s \<Longrightarrow> prefix pat (drop n s) \<Longrightarrow> \<forall>j<n. \<not> prefix pat (drop j s)
     \<Longrightarrow> find_sub pat s = Some n"
proof (induction s arbitrary: n)
  case Nil
  then show ?case by simp
next
  case (Cons c cs)
  show ?case
  proof (cases n)
    case 0
    with Cons.prems show ?thesis by simp
  next
    case (Suc m)
    with Cons.prems have "\<not> prefix pat (c # cs)" by (metis drop0 zero_less_Suc)
    moreover have "find_sub pat cs = Some m"
    proof (rule Cons.IH)
      show "m \<le> length cs" using Cons.prems Suc by simp
      show "prefix pat (drop m cs)" using Cons.prems Suc by simp
      show "\<forall>j<m. \<not> prefix pat (drop j cs)"
      proof (intro allI impI)
        fix j assume "j < m"
        then have "\<not> prefix pat (drop (Suc j) (c # cs))" using Cons.prems Suc by blast
        then show "\<not> prefix pat (drop j cs)" by simp
      qed
    qed
    ultimately show ?thesis using Suc by simp
  qed
qed

lemma find_sub_Some:
  "find_sub pat s = Some n \<Longrightarrow> n \<le> length s \<and> prefix pat (drop n s)"
proof (induction s arbitrary: n)
  case Nil
  then show ?case by (simp split: if_splits)
next
  case (Cons c cs)
  then show ?case by (auto split: if_splits)
qed

lemma find_sub_None: "find_sub pat s = None \<Longrightarrow> \<not> prefix pat (drop n s)"
proof (induction s arbitrary: n)
  case Nil
  then show ?case by (simp split: if_splits)
next
  case (Cons c cs)
  then show ?case by (cases n) (auto split: if_splits)
qed

lemma fence_python_length [simp]: "length fence_python = 9"
  by (simp add: fence_python_def fence_def ascii_def)

lemma fence_python_nonempty [simp]: "fence_python \<noteq> []"
  by (simp add: fence_python_def fence_def)

lemma codeMatch_block:
  assumes "\<forall>i<length pre. \<not> prefix fence_python (drop i (pre @ fence_python @ body @ fence @ post))"
    and "\<forall>j<length body. \<not> prefix fence (drop j (body @ fence @ post))"
  shows "codeMatch (pre @ fence_python @ body @ fence @ post) = Some body"
  using assms(1)
proof (induction pre)
  case Nil
  have f: "find_sub fence (body @ fence @ post) = Some (length body)"
    using assms(2) by (intro find_sub_first) auto
  obtain c cs where t: "fence_python @ body @ fence @ post = c # cs"
    by (cases "fence_python @ body @ fence @ post") auto
  have "prefix fence_python (c # cs)" unfolding t [symmetric] by simp
  moreover have "drop (length fence_python) (c # cs) = body @ fence @ post"
    unfolding t [symmetric] by simp
  ultimately have "codeMatch (c # cs) = Some body"
    using f by simp
  then show ?case using t by simp
next
  case (Cons c pre)
  have "0 < length (c # pre)" by simp
  with Cons.prems have z: "\<not> prefix fence_python ((c # pre) @ fence_python @ body @ fence @ post)"
    by (metis drop0)
  have "\<forall>i<length pre. \<not> prefix fence_python (drop i (pre @ fence_python @ body @ fence @ post))"
  proof (intro allI impI)
    fix i assume "i < length pre"
    then have "\<not> prefix fence_python (drop (Suc i) ((c # pre) @ fence_python @ body @ fence @ post))"
      using Cons.prems by (metis Suc_less_eq length_Cons)
    then show "\<not> prefix fence_python (drop i (pre @ fence_python @ body @ fence @ post))" by simp
  qed
  then have "codeMatch (pre @ fence_python @ body @ fence @ post) = Some body"
    by (rule Cons.IH)
  with z show ?case by simp
qed

lemma codeMatch_None:
  "codeMatch resp = None \<Longrightarrow> resp \<noteq> pre @ fence_python @ body @ fence @ post"
proof (induction pre arbitrary: resp)
  case Nil
  show ?case
  proof
    assume t: "resp = [] @ fence_python @ body @ fence @ post"
    then have "resp \<noteq> []" by simp
    then obtain c cs where cc: "resp = c # cs" by (auto simp: neq_Nil_conv)
    have p: "prefix fence_python (c # cs)" using t cc by (metis append_Nil prefixI)
    have d: "drop (length fence_python) (c # cs) = body @ fence @ post" using t cc by (metis append_Nil append_eq_conv_conj)
    have "find_sub fence (body @ fence @ post) \<noteq> None"
      using find_sub_None [of fence "body @ fence @ post" "length body"] by auto
    with Nil p d cc show False by (auto split: option.splits)
  qed
next
  case (Cons c pre)
  show ?case
  proof
    assume t: "resp = (c # pre) @ fence_python @ body @ fence @ post"
    then have "codeMatch (pre @ fence_python @ body @ fence @ post) = None"
      using Cons.prems by (auto split: if_splits option.splits)
    then show False using Cons.IH by blast
  qed
qed

lemma prefix_fence_iff: "prefix fence s \<longleftrightarrow> (\<exists>r. s = 96 # 96 # 96 # r)"
  by (auto simp: fence_def prefix_def)

lemma ticks_ge_3:
  "3 \<le> length (takeWhile (\<lambda>c. c = (96::nat)) s) \<longleftrightarrow> (\<exists>r. s = 96 # 96 # 96 # r)"
proof (cases s)
  case Nil
  then show ?thesis by simp
next
  case (Cons a s1)
  show ?thesis
  proof (cases s1)
    case Nil
    with Cons show ?thesis by simp
  next
    case (Cons b s2)
    show ?thesis
    proof (cases s2)
      case Nil
      with \<open>s = a # s1\<close> \<open>s1 = b # s2\<close> show ?thesis by simp
    next
      case (Cons c s3)
      with \<open>s = a # s1\<close> \<open>s1 = b # s2\<close> show ?thesis by simp
    qed
  qed
qed

lemma ticks_remove_fence:
  "pat = fence \<Longrightarrow>
     length (takeWhile (\<lambda>c. c = 96) (remove_all pat s)) = length (takeWhile (\<lambda>c. c = 96) s) mod 3"
proof (induction pat s rule: remove_all.induct)
  case (1 pat)
  then show ?case by simp
next
  case (2 pat c cs)
  show ?case
  proof (cases "prefix fence (c # cs)")
    case True
    then obtain r where r: "c # cs = 96 # 96 # 96 # r" by (auto simp: prefix_fence_iff)
    have "length (takeWhile (\<lambda>c. c = 96) (remove_all pat (drop (length pat) (c # cs))))
        = length (takeWhile (\<lambda>c. c = 96) (drop (length pat) (c # cs))) mod 3"
      using 2 True by (simp add: fence_def)
    with True 2(3) r show ?thesis by (simp add: fence_def)
  next
    case False
    then have lt: "\<not> 3 \<le> length (takeWhile (\<lambda>c. c = 96) (c # cs))"
      unfolding prefix_fence_iff ticks_ge_3 by blast
    have ih: "length (takeWhile (\<lambda>c. c = 96) (remove_all pat cs)) = length (takeWhile (\<lambda>c. c = 96) cs) mod 3"
      using 2 False by simp
    from False 2(3) have "remove_all pat (c # cs) = c # remove_all pat cs" by simp
    with ih lt show ?thesis by (cases "c = 96") auto
  qed
qed

lemma no_fence_after_removal: "pat = fence \<Longrightarrow> \<not> sublist fence (remove_all pat s)"
proof (induction pat s rule: remove_all.induct)
  case (1 pat)
  then show ?case by (simp add: fence_def)
next
  case (2 pat c cs)
  show ?case
  proof (cases "prefix fence (c # cs)")
    case True
    with 2 show ?thesis by (simp add: fence_def)
  next
    case False
    with 2 have r: "remove_all pat (c # cs) = c # remove_all pat cs" and ih: "\<not> sublist fence (remove_all pat cs)"
      by simp_all
    have "length (takeWhile (\<lambda>c. c = 96) (remove_all pat (c # cs))) < 3"
      using ticks_remove_fence [OF 2(3), of "c # cs"] by simp
    then have "\<not> prefix fence (remove_all pat (c # cs))"
      unfolding prefix_fence_iff ticks_ge_3 [symmetric] by simp
    with r ih show ?thesis by (simp add: sublist_Cons_right)
  qed
qed

lemma trim_prefix: "prefix (trim s) (dropWhile is_ws s)"
proof -
  have "suffix (dropWhile is_ws (rev (dropWhile is_ws s))) (rev (dropWhile is_ws s))"
    by (rule suffix_dropWhile)
  then have "prefix (rev (dropWhile is_ws (rev (dropWhile is_ws s)))) (rev (rev (dropWhile is_ws s)))"
    by (simp only: suffix_to_prefix)
  then show ?thesis by (simp add: trim_def)
qed

lemma trim_sublist: "sublist (trim s) s"
  using trim_prefix [of s] suffix_dropWhile [of is_ws s] by (auto simp: sublist_altdef')

lemma dropWhile_all_ws: "(\<forall>c \<in> set (dropWhile is_ws s). is_ws c) \<longleftrightarrow> (\<forall>c \<in> set s. is_ws c)"
proof
  assume a: "\<forall>c \<in> set (dropWhile is_ws s). is_ws c"
  have "dropWhile is_ws s = []"
  proof (rule ccontr)
    assume n: "dropWhile is_ws s \<noteq> []"
    then have "\<not> is_ws (hd (dropWhile is_ws s))" by (rule hd_dropWhile)
    moreover have "hd (dropWhile is_ws s) \<in> set (dropWhile is_ws s)" using n by (rule hd_in_set)
    ultimately show False using a by blast
  qed
  then show "\<forall>c \<in> set s. is_ws c" by (simp only: dropWhile_eq_Nil_conv)
next
  assume "\<forall>c \<in> set s. is_ws c"
  then have "dropWhile is_ws s = []" by (simp only: dropWhile_eq_Nil_conv)
  then show "\<forall>c \<in> set (dropWhile is_ws s). is_ws c" by (simp only: set_simps ball_empty)
qed

lemma trim_empty_iff: "trim s = [] \<longleftrightarrow> (\<forall>c \<in> set s. is_ws c)"
proof -
  have "trim s = [] \<longleftrightarrow> (\<forall>c \<in> set (dropWhile is_ws s). is_ws c)"
    by (simp add: trim_def dropWhile_eq_Nil_conv)
  then show ?thesis by (simp only: dropWhile_all_ws)
qed

lemma trim_trimmed:
  assumes "trim s \<noteq> []"
  shows "\<not> is_ws (hd (trim s)) \<and> \<not> is_ws (last (trim s))"
proof -
  obtain r where r: "dropWhile is_ws s = trim s @ r"
    using trim_prefix [of s] by (auto simp: prefix_def)
  with assms have n: "dropWhile is_ws s \<noteq> []" by (simp del: dropWhile_eq_Nil_conv)
  have "hd (trim s) = hd (dropWhile is_ws s)"
    using r assms by (simp del: dropWhile_eq_Nil_conv)
  moreover have "\<not> is_ws (hd (dropWhile is_ws s))" using n by (rule hd_dropWhile)
  moreover have t: "dropWhile is_ws (rev (dropWhile is_ws s)) \<noteq> []"
    using assms unfolding trim_def by (simp only: rev_is_Nil_conv not_False_eq_True)
  have "last (trim s) = hd (dropWhile is_ws (rev (dropWhile is_ws s)))"
    unfolding trim_def using t by (simp only: last_rev)
  moreover have "\<not> is_ws (hd (dropWhile is_ws (rev (dropWhile is_ws s))))"
    using t by (rule hd_dropWhile)
  ultimately show ?thesis by simp
qed

lemma strip_fences_clean: "\<not> sublist fence (strip_fences resp)"
proof
  assume "sublist fence (strip_fences resp)"
  moreover have "sublist (strip_fences resp) (remove_all fence (remove_all fence_python resp))"
    unfolding strip_fences_def by (rule trim_sublist)
  ultimately have "sublist fence (remove_all fence (remove_all fence_python resp))"
    by (rule sublist_order.order_trans)
  then show False using no_fence_after_removal [of fence] by simp
qed

lemma codeMatch_Some:
  "codeMatch resp = Some g \<Longrightarrow> \<exists>pre post. resp = pre @ fence_python @ g @ fence @ post"
proof (induction resp rule: codeMatch.induct)
  case 1
  then show ?case by simp
next
  case (2 c cs)
  show ?case
  proof (cases "prefix fence_python (c # cs)")
    case True
    then obtain rest where rest: "c # cs = fence_python @ rest" by (auto simp: prefix_def)
    then have d: "drop (length fence_python) (c # cs) = rest" by simp
    have cm: "codeMatch (c # cs) =
        (case find_sub fence rest of Some j \<Rightarrow> Some (take j rest) | None \<Rightarrow> codeMatch cs)"
      by (simp only: codeMatch.simps True if_True d)
    show ?thesis
    proof (cases "find_sub fence rest")
      case None
      with cm "2.prems" have "codeMatch cs = Some g" by simp
      with "2.IH"(1) [OF True] None d obtain pre post where "cs = pre @ fence_python @ g @ fence @ post"
        by auto
      then have "c # cs = (c # pre) @ fence_python @ g @ fence @ post" by simp
      then show ?thesis by blast
    next
      case (Some j)
      with cm "2.prems" have g: "g = take j rest" by simp
      from find_sub_Some [OF Some] obtain post where "drop j rest = fence @ post" and "j \<le> length rest"
        by (auto simp: prefix_def)
      then have "rest = g @ fence @ post" using g by (metis append_take_drop_id)
      with rest have "c # cs = [] @ fence_python @ g @ fence @ post" by simp
      then show ?thesis by blast
    qed
  next
    case False
    with "2.prems" have "codeMatch cs = Some g" by simp
    with "2.IH"(2) [OF False] obtain pre post where "cs = pre @ fence_python @ g @ fence @ post"
      by auto
    then have "c # cs = (c # pre) @ fence_python @ g @ fence @ post" by simp
    then show ?thesis by blast
  qed
qed

lemma first_block_example:
  "first_block (fence_python @ [10, 120, 10] @ fence) [] [10, 120, 10] []"
  by (simp add: first_block_def fence_def less_Suc_eq numeral_3_eq_3)

lemma codeMatch_first_block:
  assumes "first_block resp pre body post"
  shows "codeMatch resp = Some body"
proof -
  from assms have r: "resp = pre @ fence_python @ body @ fence @ post"
    unfolding first_block_def by blast
  from assms have "\<forall>i<length pre. \<not> prefix fence_python (drop i resp)"
    unfolding first_block_def by blast
  then have h1: "\<forall>i<length pre. \<not> prefix fence_python (drop i (pre @ fence_python @ body @ fence @ post))"
    unfolding r .
  from assms have h2: "\<forall>j<length body. \<not> prefix fence (drop j (body @ fence @ post))"
    unfolding first_block_def by blast
  show ?thesis unfolding r using h1 h2 by (rule codeMatch_block)
qed

text \<open>
  Claim C7, as amended. For a non-empty response text the generator returns a script. If
  the first fenced \<open>python\<close> block of the text has a non-empty content, the script is that
  content with leading and trailing white space trimmed, the fence markers excluded. If the
  text has no such block, or the content of the first block is empty, the script is the
  full text with the tagged and the plain fence markers removed and then trimmed; it
  contains no fence marker. In every case the script neither starts nor ends with white
  space.
\<close>

theorem C7_extract_script:
  assumes "resp \<noteq> []"
  shows "parse_response (Some resp) = Inr (extract_script resp)
       \<and> (\<forall>pre body post. first_block resp pre body post \<and> body \<noteq> [] \<longrightarrow>
            extract_script resp = trim body)
       \<and> ((\<forall>pre body post. resp \<noteq> pre @ fence_python @ body @ fence @ post)
            \<or> (\<exists>pre post. first_block resp pre [] post) \<longrightarrow>
            extract_script resp = trim (remove_all fence (remove_all fence_python resp))
            \<and> \<not> sublist fence (extract_script resp))
       \<and> (extract_script resp \<noteq> [] \<longrightarrow>
            \<not> is_ws (hd (extract_script resp)) \<and> \<not> is_ws (last (extract_script resp)))"
proof (intro conjI allI impI)
  show "parse_response (Some resp) = Inr (extract_script resp)"
    using assms by (simp add: parse_response_def)
next
  fix pre body post
  assume a: "first_block resp pre body post \<and> body \<noteq> []"
  then have "codeMatch resp = Some body"
    using codeMatch_first_block [of resp pre body post] by blast
  with a show "extract_script resp = trim body"
    by (simp add: extract_script_def)
next
  assume a: "(\<forall>pre body post. resp \<noteq> pre @ fence_python @ body @ fence @ post)
            \<or> (\<exists>pre post. first_block resp pre [] post)"
  have "codeMatch resp = None \<or> codeMatch resp = Some []"
  proof (cases "\<exists>pre post. first_block resp pre [] post")
    case True
    then obtain pre post where "first_block resp pre [] post" by blast
    then have "codeMatch resp = Some []"
      by (rule codeMatch_first_block)
    then show ?thesis by simp
  next
    case False
    with a have n: "\<forall>pre body post. resp \<noteq> pre @ fence_python @ body @ fence @ post" by blast
    have "codeMatch resp = None"
    proof (cases "codeMatch resp")
      case None
      then show ?thesis .
    next
      case (Some g)
      then obtain pre post where "resp = pre @ fence_python @ g @ fence @ post"
        using codeMatch_Some by blast
      with n show ?thesis by blast
    qed
    then show ?thesis by simp
  qed
  then have e: "extract_script resp = strip_fences resp"
    by (auto simp: extract_script_def)
  then show "extract_script resp = trim (remove_all fence (remove_all fence_python resp))"
    by (simp add: strip_fences_def)
  from e show "\<not> sublist fence (extract_script resp)"
    by (simp add: strip_fences_clean)
next
  assume n: "extract_script resp \<noteq> []"
  have "\<exists>s. extract_script resp = trim s"
    by (auto simp: extract_script_def strip_fences_def split: option.splits)
  then obtain s where s: "extract_script resp = trim s" ..
  with n trim_trimmed [of s] have t: "\<not> is_ws (hd (trim s)) \<and> \<not> is_ws (last (trim s))" by simp
  from t s show "\<not> is_ws (hd (extract_script resp))" by simp
  from t s show "\<not> is_ws (last (extract_script resp))" by simp
qed


theorem C7_extract_script_witness:
  "extract_script (fence_python @ [10, 120, 10] @ fence) = [120]
   \<and> extract_script [120, 32] = [120]"
proof -
  have c: "codeMatch [120, 32] = None"
    by (simp add: fence_python_def fence_def ascii_def)
  have n: "\<forall>pre body post. [120, 32] \<noteq> pre @ fence_python @ body @ fence @ post"
    using codeMatch_None [OF c] by blast
  have t: "trim [10, 120, 10] = [120]" "trim (remove_all fence (remove_all fence_python [120, 32])) = [120]"
    by (simp_all add: trim_def is_ws_def fence_def fence_python_def ascii_def)
  have e: "fence_python @ [10, 120, 10] @ fence \<noteq> []" "[120, 32] \<noteq> ([]::jsstring)"
    by simp_all
  have b: "[10, 120, 10] \<noteq> ([]::jsstring)" by simp
  have "extract_script (fence_python @ [10, 120, 10] @ fence) = trim [10, 120, 10]"
    using C7_extract_script [OF e(1)] first_block_example b by blast
  moreover have "extract_script [120, 32] = trim (remove_all fence (remove_all fence_python [120, 32]))"
    using C7_extract_script [OF e(2)] n by blast
  ultimately show ?thesis using t by simp
qed

text \<open>
  The claim as first stated fails on \<open>a```python```b\<close>: the text holds a fenced block,
  whose content is empty, and the script returned is \<open>ab\<close>, not the trimmed content.
\<close>

theorem C7_counterexample:
  "first_block ([97] @ fence_python @ [] @ fence @ [98]) [97] [] [98]
   \<and> parse_response (Some ([97] @ fence_python @ [] @ fence @ [98])) = Inr [97, 98]
   \<and> trim [] \<noteq> [97, 98]"
  by (simp add: first_block_def parse_response_def extract_script_def strip_fences_def
      fence_python_def fence_def ascii_def trim_def is_ws_def)

section \<open>Properties of the application\<close>

lemma blank_instruction_iff:
  "blank_instruction a1 \<longleftrightarrow> a1 = [] \<or> (\<forall>c \<in> set a1. is_ws c) \<or> a1 = ascii ''None''"
  by (auto simp: blank_instruction_def trim_empty_iff)

lemma unwrap_no_instruction: "unwrap_error_payload jm msg_no_instruction = JStr msg_no_instruction"
  by (simp add: unwrap_error_payload_def msg_no_instruction_def ascii_def)

lemma startTransformation_blank:
  assumes "fst (extractA1AndColumns (reader ev) (pyodideInstance st) file) = Inr (a1, columns)"
    and "blank_instruction a1"
  shows "startTransformation ev file st =
     st\<lparr>status := ERROR,
        logs := logs st @ [\<lparr>message = JStr (log_start @ name file), type = Info\<rparr>,
                           \<lparr>message = JStr log_no_instruction, type = Warning\<rparr>,
                           \<lparr>message = JStr msg_no_instruction, type = Failure\<rparr>],
        a1Instruction := a1_none,
        errorMsg := Some (JStr msg_no_instruction),
        pyodideInstance := snd (extractA1AndColumns (reader ev) (pyodideInstance st) file),
        effects := effects st @ [StatusSet READING_FILE, ReaderCalled, StatusSet ERROR]\<rparr>"
  using assms
  by (cases "extractA1AndColumns (reader ev) (pyodideInstance st) file")
     (simp add: startTransformation_def fail_with_def addLog_def setStatus_def Let_def
       unwrap_no_instruction)

lemma refused_startTransformation:
  assumes "fst (extractA1AndColumns (reader ev) (pyodideInstance st) file) = Inr (a1, columns)"
    and "blank_instruction a1"
  shows "refused st (startTransformation ev file st)"
  unfolding startTransformation_blank [OF assms]
  by (simp add: refused_def new_effects_def)

text \<open>
  Claim C2. When the reader returns an instruction text that is empty, all white space, or
  the placeholder \<open>None\<close>, the run ends in \<open>ERROR\<close> without calling the generator and
  without consuming a usage unit (the usage record and the remaining uses are unchanged),
  on each way into the pipeline: \<open>startTransformation\<close>, an upload through \<open>processFile\<close>
  and a manual retry through \<open>handleRetry\<close>.
\<close>

theorem C2_blank_instruction_fails:
  assumes "fst (extractA1AndColumns (reader ev) (pyodideInstance st) file) = Inr (a1, columns)"
    and "a1 = [] \<or> (\<forall>c \<in> set a1. is_ws c) \<or> a1 = ascii ''None''"
  shows "refused st (startTransformation ev file st)
       \<and> refused st (processFile ev file st)
       \<and> (inputFile st = Some file \<longrightarrow> refused st (handleRetry ev st))"
proof (intro conjI impI)
  have b: "blank_instruction a1" using assms(2) by (simp add: blank_instruction_iff)
  show "refused st (startTransformation ev file st)"
    using assms(1) b by (rule refused_startTransformation)
  show "refused st (processFile ev file st)"
  proof (cases "remainingUses st \<le> 0")
    case True
    then show ?thesis
      by (simp add: processFile_def refused_def new_effects_def setStatus_def)
  next
    case False
    let ?st = "st\<lparr>inputFile := Some file, outputBlob := None, generatedCode := [],
              a1Instruction := [], errorMsg := None\<rparr>"
    have "refused ?st (startTransformation ev file ?st)"
      using assms(1) b by (intro refused_startTransformation) simp_all
    with False show ?thesis
      by (simp add: processFile_def refused_def new_effects_def)
  qed
  show "refused st (handleRetry ev st)" if "inputFile st = Some file"
  proof -
    let ?st = "addLog (JStr log_retrying) Info (st\<lparr>errorMsg := None\<rparr>)"
    have "refused ?st (startTransformation ev file ?st)"
      using assms(1) b by (intro refused_startTransformation) (simp_all add: addLog_def)
    with that show ?thesis
      by (simp add: handleRetry_def refused_def new_effects_def addLog_def)
  qed
qed

theorem C2_blank_instruction_fails_witness:
  "refused st0 (startTransformation (ev0\<lparr>reader := \<lambda>b. Inr ([32, 9], [])\<rparr>) file0 st0)
   \<and> refused fresh (processFile (ev0\<lparr>reader := \<lambda>b. Inr (ascii ''None'', [])\<rparr>) file0 fresh)
   \<and> refused st0 (handleRetry (ev0\<lparr>reader := \<lambda>b. Inr ([], [])\<rparr>) st0)"
proof -
  have e: "fst (extractA1AndColumns (reader (ev0\<lparr>reader := \<lambda>b. Inr (a, [])\<rparr>)) (pyodideInstance st0) file0) = Inr (a, [])"
      "fst (extractA1AndColumns (reader (ev0\<lparr>reader := \<lambda>b. Inr (a, [])\<rparr>)) (pyodideInstance fresh) file0) = Inr (a, [])" for a
    by (simp_all add: extractA1AndColumns_def st0_def fresh_def)
  have w: "[32, 9] = [] \<or> (\<forall>c \<in> set [32, 9]. is_ws c) \<or> [32, 9] = ascii ''None''"
    by (simp add: is_ws_def)
  have i: "inputFile st0 = Some file0" by (simp add: st0_def)
  show ?thesis
    using C2_blank_instruction_fails [OF e(1) w]
      C2_blank_instruction_fails [OF e(2) [of "ascii ''None''"]]
      C2_blank_instruction_fails [OF e(1) [of "[]"]] i
    by simp
qed

lemma generate_x:
  "generateExcelEditCode (Some (ascii ''k'')) (\<lambda>p k. Responds (Some [120])) fp jm a1 columns
     = (Inr [120], [Call 0])"
proof -
  have "try_body (Responds (Some [120])) = Inr [120]"
    by (simp add: try_body_def parse_response_def extract_script_def strip_fences_def
        fence_python_def fence_def ascii_def trim_def is_ws_def)
  then have "attempt_loop (\<lambda>k. Responds (Some [120])) fp 0 None = (Inr [120], [Call 0])"
    by (intro attempt_loop_success) simp_all
  then show ?thesis
    by (simp add: generateExcelEditCode_def ascii_def)
qed

lemma retry_offered_st0: "retry_offered st0"
  by (simp add: retry_offered_def isRetryableError_def marked_fragment_def st0_def
      msg_overloaded_def)

text \<open>
  Claim C3 fails on the retry path. In the state \<open>st0\<close> no uses remain and the retry button
  is shown; an upload is refused by \<open>processFile\<close>, but \<open>handleRetry\<close> runs the pipeline:
  it consumes a unit (the stored count becomes 51, above the limit of 50) and calls the
  generator, and the run completes.
\<close>

theorem C3_retry_not_gated:
  "remainingUses st0 = 0 \<and> retry_offered st0
   \<and> refused st0 (processFile ev0 file0 st0)
   \<and> effects (handleRetry ev0 st0)
       = [StatusSet READING_FILE, ReaderCalled, StatusSet GENERATING_CODE, UsageConsumed,
          GeneratorCalled [Call 0], StatusSet EXECUTING_CODE, ExecutorCalled, StatusSet COMPLETED]
   \<and> status (handleRetry ev0 st0) = COMPLETED
   \<and> localStorage (handleRetry ev0 st0) = Item \<lparr>date = day0, count = 51\<rparr>"
proof -
  have "refused st0 (processFile ev0 file0 st0)"
    by (simp add: processFile_def refused_def new_effects_def setStatus_def st0_def)
  moreover have "effects (handleRetry ev0 st0)
       = [StatusSet READING_FILE, ReaderCalled, StatusSet GENERATING_CODE, UsageConsumed,
          GeneratorCalled [Call 0], StatusSet EXECUTING_CODE, ExecutorCalled, StatusSet COMPLETED]
     \<and> status (handleRetry ev0 st0) = COMPLETED
     \<and> localStorage (handleRetry ev0 st0) = Item \<lparr>date = day0, count = 51\<rparr>"
    by (simp add: handleRetry_def startTransformation_def st0_def ev0_def file0_def Let_def
        extractA1AndColumns_def blank_instruction_def trim_def is_ws_def ascii_def
        addLog_def setStatus_def consumeUsage_def MAX_DAILY_USES_def
        generate_x [unfolded ascii_def, simplified]
        runPythonTransformation_def cleanup_output_eq FS_writeFile_def)
  ultimately show ?thesis
    using retry_offered_st0 by (simp add: st0_def)
qed

lemma loadUsage_settled: "\<not> load_resets today (localStorage (loadUsage today st))"
  by (simp add: loadUsage_def load_resets_def split: stored.splits)

lemma consumeUsage_settled: "\<not> load_resets today (localStorage (consumeUsage today st))"
  by (simp add: consumeUsage_def load_resets_def Let_def)

lemma settled_no_reset:
  "\<forall>op \<in> set ops. op_day op = today \<Longrightarrow> \<not> load_resets today (localStorage st)
     \<Longrightarrow> snd (run_usage ops st) = []"
proof (induction ops arbitrary: st)
  case Nil
  then show ?case by simp
next
  case (Cons op ops)
  show ?case
  proof (cases op)
    case (Startup d)
    with Cons.prems have d: "d = today" by simp
    have "\<not> load_resets today (localStorage (loadUsage today (st\<lparr>remainingUses := MAX_DAILY_USES\<rparr>)))"
      by (rule loadUsage_settled)
    then have "snd (run_usage ops (loadUsage today (st\<lparr>remainingUses := MAX_DAILY_USES\<rparr>))) = []"
      using Cons.prems by (intro Cons.IH) simp_all
    with Startup d Cons.prems(2) show ?thesis
      by (simp split: prod.splits)
  next
    case (Consume d)
    with Cons.prems have d: "d = today" by simp
    have "snd (run_usage ops (consumeUsage today st)) = []"
      using Cons.prems consumeUsage_settled by (intro Cons.IH) simp_all
    with Consume d show ?thesis by simp
  qed
qed

lemma one_reset_a_day:
  assumes "\<forall>op \<in> set ops. op_day op = today"
  shows "length (snd (run_usage ops st)) \<le> 1"
proof (cases ops)
  case Nil
  then show ?thesis by simp
next
  case (Cons op rest)
  with assms have r: "\<forall>op \<in> set rest. op_day op = today" by simp
  show ?thesis
  proof (cases op)
    case (Startup d)
    with Cons assms have d: "d = today" by simp
    have "snd (run_usage rest (loadUsage today (st\<lparr>remainingUses := MAX_DAILY_USES\<rparr>))) = []"
      using r loadUsage_settled by (rule settled_no_reset)
    with Cons Startup d show ?thesis by (auto split: prod.splits)
  next
    case (Consume d)
    with Cons assms have d: "d = today" by simp
    have "snd (run_usage rest (consumeUsage today st)) = []"
      using r consumeUsage_settled by (rule settled_no_reset)
    with Cons Consume d show ?thesis by simp
  qed
qed

text \<open>
  Claim C8, as amended. At startup, a stored record of another day is reset to
  \<open>{today, 0}\<close> and the remaining uses are the full daily limit; a stored record of today is
  kept and the remaining uses are \<open>max(0, limit - count)\<close>. Among the sessions started
  and the units consumed on one calendar day, however many, at most one start resets the
  record; when the first operation of the day is a start that finds the record of another
  day, exactly that start resets it.
\<close>

theorem C8_usage_reset:
  "(localStorage st = Item r \<and> date r \<noteq> today \<longrightarrow>
      localStorage (loadUsage today st) = Item \<lparr>date = today, count = 0\<rparr>
      \<and> remainingUses (loadUsage today st) = MAX_DAILY_USES)
   \<and> (localStorage st = Item r \<and> date r = today \<longrightarrow>
      localStorage (loadUsage today st) = Item r
      \<and> remainingUses (loadUsage today st) = max 0 (MAX_DAILY_USES - count r))
   \<and> ((\<forall>op \<in> set ops. op_day op = today) \<longrightarrow> length (snd (run_usage ops st)) \<le> 1)
   \<and> ((\<forall>op \<in> set ops. op_day op = today) \<and> localStorage st = Item r \<and> date r \<noteq> today \<longrightarrow>
      snd (run_usage (Startup today # ops) st) = [today])"
proof (intro conjI impI)
  assume a: "localStorage st = Item r \<and> date r \<noteq> today"
  then show "localStorage (loadUsage today st) = Item \<lparr>date = today, count = 0\<rparr>"
    and "remainingUses (loadUsage today st) = MAX_DAILY_USES"
    by (simp_all add: loadUsage_def)
next
  assume a: "localStorage st = Item r \<and> date r = today"
  then show "localStorage (loadUsage today st) = Item r"
    and "remainingUses (loadUsage today st) = max 0 (MAX_DAILY_USES - count r)"
    by (auto simp: loadUsage_def)
next
  assume "\<forall>op \<in> set ops. op_day op = today"
  then show "length (snd (run_usage ops st)) \<le> 1" by (rule one_reset_a_day)
next
  assume a: "(\<forall>op \<in> set ops. op_day op = today) \<and> localStorage st = Item r \<and> date r \<noteq> today"
  have "snd (run_usage ops (loadUsage today (st\<lparr>remainingUses := MAX_DAILY_USES\<rparr>))) = []"
  proof (rule settled_no_reset [of ops today])
    show "\<forall>op \<in> set ops. op_day op = today" using a by simp
    show "\<not> load_resets today (localStorage (loadUsage today (st\<lparr>remainingUses := MAX_DAILY_USES\<rparr>)))"
      by (rule loadUsage_settled)
  qed
  with a show "snd (run_usage (Startup today # ops) st) = [today]"
    by (auto simp: load_resets_def split: prod.splits)
qed

lemma day0_neq_day1: "day0 \<noteq> day1"
  by (simp add: day0_def day1_def ascii_def)

theorem C8_usage_reset_witness:
  "localStorage (loadUsage day1 st0) = Item \<lparr>date = day1, count = 0\<rparr>
   \<and> remainingUses (loadUsage day1 st0) = MAX_DAILY_USES
   \<and> remainingUses (loadUsage day0 st0) = max 0 (MAX_DAILY_USES - 50)
   \<and> snd (run_usage [Startup day1, Consume day1, Startup day1, Consume day1, Startup day1] st0) = [day1]"
proof -
  have s: "localStorage st0 = Item \<lparr>date = day0, count = 50\<rparr>" by (simp add: st0_def)
  have o: "\<forall>op \<in> set [Consume day1, Startup day1, Consume day1, Startup day1]. op_day op = day1"
    by simp
  show ?thesis
    using C8_usage_reset [of st0 "\<lparr>date = day0, count = 50\<rparr>" day1
            "[Consume day1, Startup day1, Consume day1, Startup day1]"]
          C8_usage_reset [of st0 "\<lparr>date = day0, count = 50\<rparr>" day0 "[]"]
          s o day0_neq_day1
    by simp
qed

text \<open>
  The claim as first stated fails when a session stays open over midnight: it starts and
  consumes a unit on one day and consumes another on the next day. The record then carries
  the new day with a count of 2, no start has reset it, and a session started on the new
  day finds 48 uses left.
\<close>

theorem C8_counterexample:
  "snd (run_usage [Startup day0, Consume day0, Consume day1, Startup day1] fresh) = []
   \<and> localStorage (fst (run_usage [Startup day0, Consume day0, Consume day1, Startup day1] fresh))
       = Item \<lparr>date = day1, count = 2\<rparr>
   \<and> remainingUses (fst (run_usage [Startup day0, Consume day0, Consume day1, Startup day1] fresh)) = 48
   \<and> day0 \<noteq> day1"
  using day0_neq_day1
  by (simp add: fresh_def loadUsage_def consumeUsage_def load_resets_def MAX_DAILY_USES_def Let_def)

end
